theory Spec2Isabelle
  imports Main "HOL-Library.Word"
begin

section \<open>Python values, dictionaries and exceptions\<close>

text \<open>
  The data-access layer of \<^verbatim>\<open>src/app/database.py\<close> moves rows between the caller and
  a hosted backend. A row is a Python \<^verbatim>\<open>Dict\<close> from column names to values; the schema of
  \<^verbatim>\<open>initialize_tables\<close> has \<^verbatim>\<open>TEXT\<close> and \<^verbatim>\<open>BOOLEAN\<close> columns, all nullable unless declared
  otherwise, so a value is \<^verbatim>\<open>None\<close>, a \<^verbatim>\<open>str\<close> or a \<^verbatim>\<open>bool\<close>.
\<close>

datatype pyval = PNone | PStr string | PBool bool

type_synonym row = "string \<Rightarrow> pyval option"

type_synonym bytes = "8 word list"

text \<open>
  Instances of Python's \<^verbatim>\<open>Exception\<close>: what the backend client raises (\<open>APIError\<close> for a
  table request, \<open>StorageException\<close> for the blob store) and what the layer's own code can
  raise (\<open>AttributeError\<close> for \<^verbatim>\<open>None.get\<close>, \<open>KeyError\<close> for \<^verbatim>\<open>d[k]\<close> on a missing key,
  \<open>TypeError\<close> for a non-string path).
\<close>

datatype exn =
    APIError string
  | StorageException string
  | AttributeError string
  | KeyError string
  | TypeError string

text \<open>\<^verbatim>\<open>not v\<close> is \<open>\<not> truthy v\<close>: \<^verbatim>\<open>None\<close>, \<^verbatim>\<open>''\<close> and \<^verbatim>\<open>False\<close> are falsy.\<close>

fun truthy :: "pyval \<Rightarrow> bool" where
  "truthy PNone = False"
| "truthy (PStr s) = (s \<noteq> [])"
| "truthy (PBool b) = b"

text \<open>\<^verbatim>\<open>f"{v}"\<close>: the text an f-string puts for a value.\<close>

fun py_format :: "pyval \<Rightarrow> string" where
  "py_format PNone = ''None''"
| "py_format (PStr s) = s"
| "py_format (PBool b) = (if b then ''True'' else ''False'')"

text \<open>\<^verbatim>\<open>d.get(k)\<close> gives \<^verbatim>\<open>None\<close> for a missing key; \<^verbatim>\<open>d[k]\<close> raises \<^verbatim>\<open>KeyError\<close>.\<close>

definition dict_get :: "row \<Rightarrow> string \<Rightarrow> pyval" where
  "dict_get d k = (case d k of None \<Rightarrow> PNone | Some v \<Rightarrow> v)"

definition dict_index :: "row \<Rightarrow> string \<Rightarrow> exn + pyval" where
  "dict_index d k = (case d k of None \<Rightarrow> Inl (KeyError k) | Some v \<Rightarrow> Inr v)"

text \<open>\<^verbatim>\<open>response.data[0] if response.data else None\<close>\<close>

definition first_or_none :: "row list \<Rightarrow> row option" where
  "first_or_none data = (case data of [] \<Rightarrow> None | r # _ \<Rightarrow> Some r)"

section \<open>Computations that may raise and that talk to the backend\<close>

text \<open>
  A method body is a function from the backend's state to a result and the backend's new
  state. The result is \<open>Inl e\<close> when the exception \<open>e\<close> leaves the body, \<open>Inr v\<close> when it
  returns \<open>v\<close>. A request that raises may still have changed the backend, so the state is
  returned in both cases.
\<close>

type_synonym ('a, 's) io = "'s \<Rightarrow> (exn + 'a) \<times> 's"

definition io_return :: "'a \<Rightarrow> ('a, 's) io" where
  "io_return v s = (Inr v, s)"

definition io_raise :: "exn \<Rightarrow> ('a, 's) io" where
  "io_raise e s = (Inl e, s)"

definition io_lift :: "exn + 'a \<Rightarrow> ('a, 's) io" where
  "io_lift r s = (r, s)"

definition io_bind :: "('a, 's) io \<Rightarrow> ('a \<Rightarrow> ('b, 's) io) \<Rightarrow> ('b, 's) io" where
  "io_bind m f s = (case m s of (Inl e, s') \<Rightarrow> (Inl e, s') | (Inr v, s') \<Rightarrow> f v s')"

text \<open>
  \<^verbatim>\<open>try: body  except Exception as e: handler\<close>. The handlers of this file log the
  error text and return a constant; the log line is not part of the model.
\<close>

definition try_except :: "('a, 's) io \<Rightarrow> (exn \<Rightarrow> ('a, 's) io) \<Rightarrow> ('a, 's) io" where
  "try_except body handler s =
     (case body s of (Inl e, s') \<Rightarrow> handler e s' | (Inr v, s') \<Rightarrow> (Inr v, s'))"

text \<open>An exception has left the method: the caller sees it.\<close>

definition propagates :: "(exn + 'a) \<times> 'b \<Rightarrow> bool" where
  "propagates r = isl (fst r)"

section \<open>The backend client\<close>

text \<open>
  \<^verbatim>\<open>self.supabase\<close> is the hosted backend's client, an external library. The layer uses
  three of its entry points: a table query built by
  \<^verbatim>\<open>table(t).insert(d)\<close>, \<^verbatim>\<open>.select('*').eq(c, v)\<close>, \<^verbatim>\<open>.select('*')\<close>,
  \<^verbatim>\<open>.update(d).eq(c, v)\<close> or \<^verbatim>\<open>.delete().eq(c, v)\<close> and sent by \<^verbatim>\<open>.execute()\<close>, whose
  response carries the list \<^verbatim>\<open>data\<close> of rows; \<^verbatim>\<open>storage.from_(bucket).upload(path, bytes)\<close>;
  and \<^verbatim>\<open>storage.from_(bucket).download(path)\<close>. The client is a parameter of every method:
  a record of three functions over a backend state of any type, each free to return or to
  raise and to change the state as it likes.
\<close>

datatype query =
    Insert string row
  | SelectEq string string pyval
  | SelectAll string
  | UpdateEq string row string pyval
  | DeleteEq string string pyval

record 's supabase =
  table_execute :: "query \<Rightarrow> (row list, 's) io"
  storage_upload :: "string \<Rightarrow> string \<Rightarrow> bytes \<Rightarrow> (unit, 's) io"
  storage_download :: "string \<Rightarrow> string \<Rightarrow> (bytes, 's) io"

section \<open>The Database class\<close>

text \<open>
  Each method takes the client first and the backend state last. A method that assigns
  into a dictionary the caller passed (\<^verbatim>\<open>create_influencer\<close>, \<^verbatim>\<open>update_influencer\<close>)
  also returns that dictionary as the call leaves it. \<^verbatim>\<open>str(uuid.uuid4())\<close> is the
  argument \<open>uid\<close> of the two methods that draw one; the dictionary literals
  \<^verbatim>\<open>affiliate_data\<close> and \<^verbatim>\<open>interaction_data\<close> are functions of the values they are built
  from.
\<close>

definition required_fields :: "string list" where
  "required_fields = [''id'', ''username'', ''email'', ''password_hash'']"

definition create_influencer ::
    "'s supabase \<Rightarrow> row \<Rightarrow> 's \<Rightarrow> (exn + row option) \<times> row \<times> 's" where
  "create_influencer sb influencer_data s =
     (if \<not> list_all (\<lambda>field. field \<in> dom influencer_data) required_fields
      then (Inr None, influencer_data, s)
      else
        (case dict_index influencer_data ''username'' of
           Inl e \<Rightarrow> (Inl e, influencer_data, s)
         | Inr username \<Rightarrow>
             (let influencer_data' =
                    influencer_data(''chat_page_url'' \<mapsto> PStr (''/chat/'' @ py_format username))
              in case try_except
                        (io_bind (table_execute sb (Insert ''influencers'' influencer_data'))
                           (\<lambda>data. io_return (first_or_none data)))
                        (\<lambda>e. io_return None) s of
                   (r, s') \<Rightarrow> (r, influencer_data', s'))))"

definition get_influencer_by_username :: "'s supabase \<Rightarrow> string \<Rightarrow> (row option, 's) io" where
  "get_influencer_by_username sb username =
     try_except
       (io_bind (table_execute sb (SelectEq ''influencers'' ''username'' (PStr username)))
          (\<lambda>data. io_return (first_or_none data)))
       (\<lambda>e. io_return None)"

definition get_influencer_by_email :: "'s supabase \<Rightarrow> string \<Rightarrow> (row option, 's) io" where
  "get_influencer_by_email sb email =
     try_except
       (io_bind (table_execute sb (SelectEq ''influencers'' ''email'' (PStr email)))
          (\<lambda>data. io_return (first_or_none data)))
       (\<lambda>e. io_return None)"

definition get_influencer :: "'s supabase \<Rightarrow> string \<Rightarrow> (row option, 's) io" where
  "get_influencer sb influencer_id =
     try_except
       (io_bind (table_execute sb (SelectEq ''influencers'' ''id'' (PStr influencer_id)))
          (\<lambda>data. io_return (first_or_none data)))
       (\<lambda>e. io_return None)"

definition update_influencer ::
    "'s supabase \<Rightarrow> string \<Rightarrow> row \<Rightarrow> 's \<Rightarrow> (exn + bool) \<times> row \<times> 's" where
  "update_influencer sb influencer_id updates s =
     (if dom updates = {} then (Inr False, updates, s)
      else
        (let updates' = updates(''updated_at'' \<mapsto> PStr ''now()'')
         in case try_except
                   (io_bind
                      (table_execute sb
                         (UpdateEq ''influencers'' updates' ''id'' (PStr influencer_id)))
                      (\<lambda>response. io_return True))
                   (\<lambda>e. io_return False) s of
              (r, s') \<Rightarrow> (r, updates', s')))"

text \<open>
  A call without the dictionary it leaves behind: what remains of a call on a dictionary
  literal, which is gone once the call returns.
\<close>

definition drop_dict :: "('s \<Rightarrow> (exn + 'a) \<times> row \<times> 's) \<Rightarrow> ('a, 's) io" where
  "drop_dict m s = (case m s of (r, d, s') \<Rightarrow> (r, s'))"

definition delete_influencer :: "'s supabase \<Rightarrow> string \<Rightarrow> (bool, 's) io" where
  "delete_influencer sb influencer_id =
     try_except
       (io_bind (table_execute sb (DeleteEq ''influencers'' ''id'' (PStr influencer_id)))
          (\<lambda>response. io_return True))
       (\<lambda>e. io_return False)"

definition get_all_influencers :: "'s supabase \<Rightarrow> (row list, 's) io" where
  "get_all_influencers sb =
     try_except
       (io_bind (table_execute sb (SelectAll ''influencers'')) (\<lambda>data. io_return data))
       (\<lambda>e. io_return [])"

definition bucket_name :: string where
  "bucket_name = ''influencer-assets''"

definition asset_path :: "string \<Rightarrow> string \<Rightarrow> string" where
  "asset_path influencer_id file_name = ''original_avatars/'' @ influencer_id @ ''/'' @ file_name"

definition store_original_asset ::
    "'s supabase \<Rightarrow> string \<Rightarrow> bytes \<Rightarrow> string \<Rightarrow> (string option, 's) io" where
  "store_original_asset sb influencer_id file_bytes file_name =
     try_except
       (let file_path = asset_path influencer_id file_name
        in io_bind (storage_upload sb bucket_name file_path file_bytes) (\<lambda>_.
           io_bind
             (drop_dict
                (update_influencer sb influencer_id
                   [''original_asset_path'' \<mapsto> PStr file_path])) (\<lambda>_.
           io_return (Some file_path))))
       (\<lambda>e. io_return None)"

definition get_original_asset :: "'s supabase \<Rightarrow> string \<Rightarrow> (bytes option, 's) io" where
  "get_original_asset sb influencer_id =
     try_except
       (io_bind (get_influencer sb influencer_id) (\<lambda>influencer.
          case influencer of
            None \<Rightarrow> io_return None
          | Some found \<Rightarrow>
              if dom found = {} then io_return None
              else if \<not> truthy (dict_get found ''original_asset_path'') then io_return None
              else
                io_bind (io_lift (dict_index found ''original_asset_path'')) (\<lambda>file_path.
                  case file_path of
                    PStr p \<Rightarrow>
                      io_bind (storage_download sb bucket_name p) (\<lambda>b. io_return (Some b))
                  | _ \<Rightarrow> io_raise (TypeError ''path''))))
       (\<lambda>e. io_return None)"

definition affiliate_data :: "string \<Rightarrow> string \<Rightarrow> string \<Rightarrow> string \<Rightarrow> row" where
  "affiliate_data influencer_id platform affiliate_id uid =
     [''id'' \<mapsto> PStr uid,
      ''influencer_id'' \<mapsto> PStr influencer_id,
      ''platform'' \<mapsto> PStr platform,
      ''affiliate_id'' \<mapsto> PStr affiliate_id]"

definition add_affiliate_link ::
    "'s supabase \<Rightarrow> string \<Rightarrow> string \<Rightarrow> string \<Rightarrow> string \<Rightarrow> (row option, 's) io" where
  "add_affiliate_link sb influencer_id platform affiliate_id uid =
     try_except
       (io_bind
          (table_execute sb
             (Insert ''affiliate_links'' (affiliate_data influencer_id platform affiliate_id uid)))
          (\<lambda>data.
           io_bind (get_influencer sb influencer_id) (\<lambda>influencer.
           io_bind
             (case influencer of
                None \<Rightarrow> io_raise (AttributeError ''get'')
              | Some found \<Rightarrow> io_return (dict_get found ''affiliate_id'')) (\<lambda>current.
           io_bind
             (if \<not> truthy current
              then io_bind
                     (drop_dict
                        (update_influencer sb influencer_id
                           [''affiliate_id'' \<mapsto> PStr affiliate_id]))
                     (\<lambda>_. io_return ())
              else io_return ()) (\<lambda>_.
           io_return (first_or_none data))))))
       (\<lambda>e. io_return None)"

definition get_affiliate_links :: "'s supabase \<Rightarrow> string \<Rightarrow> (row list, 's) io" where
  "get_affiliate_links sb influencer_id =
     try_except
       (io_bind
          (table_execute sb (SelectEq ''affiliate_links'' ''influencer_id'' (PStr influencer_id)))
          (\<lambda>data. io_return data))
       (\<lambda>e. io_return [])"

definition get_primary_affiliate_id :: "'s supabase \<Rightarrow> string \<Rightarrow> (pyval, 's) io" where
  "get_primary_affiliate_id sb influencer_id =
     try_except
       (io_bind (get_influencer sb influencer_id) (\<lambda>influencer.
          io_return
            (case influencer of
               None \<Rightarrow> PNone
             | Some found \<Rightarrow> if dom found = {} then PNone else dict_get found ''affiliate_id'')))
       (\<lambda>e. io_return PNone)"

definition interaction_data :: "string \<Rightarrow> string \<Rightarrow> string \<Rightarrow> bool \<Rightarrow> string \<Rightarrow> row" where
  "interaction_data influencer_id user_message bot_response product_recommendations uid =
     [''id'' \<mapsto> PStr uid,
      ''influencer_id'' \<mapsto> PStr influencer_id,
      ''user_message'' \<mapsto> PStr user_message,
      ''bot_response'' \<mapsto> PStr bot_response,
      ''product_recommendations'' \<mapsto> PBool product_recommendations]"

definition log_chat_interaction ::
    "'s supabase \<Rightarrow> string \<Rightarrow> string \<Rightarrow> string \<Rightarrow> bool \<Rightarrow> string \<Rightarrow> (row option, 's) io" where
  "log_chat_interaction sb influencer_id user_message bot_response product_recommendations uid =
     try_except
       (io_bind
          (table_execute sb
             (Insert ''chat_interactions''
                (interaction_data influencer_id user_message bot_response
                   product_recommendations uid)))
          (\<lambda>data. io_return (first_or_none data)))
       (\<lambda>e. io_return None)"

section \<open>Observing the requests a method sends\<close>

text \<open>
  \<open>traced sb\<close> behaves as \<open>sb\<close> does and appends every request it receives to a log kept
  beside the backend's state. The methods cannot read the log, so the log of a run from the
  empty log is the sequence of requests the method sent.
\<close>

datatype request =
    TableRequest query
  | UploadRequest string string bytes
  | DownloadRequest string string

definition traced :: "'s supabase \<Rightarrow> ('s \<times> request list) supabase" where
  "traced sb =
     \<lparr> table_execute = (\<lambda>q (s, log).
         case table_execute sb q s of (r, s') \<Rightarrow> (r, (s', log @ [TableRequest q]))),
       storage_upload = (\<lambda>bucket path b (s, log).
         case storage_upload sb bucket path b s of
           (r, s') \<Rightarrow> (r, (s', log @ [UploadRequest bucket path b]))),
       storage_download = (\<lambda>bucket path (s, log).
         case storage_download sb bucket path s of
           (r, s') \<Rightarrow> (r, (s', log @ [DownloadRequest bucket path]))) \<rparr>"

definition requests :: "('a, 's \<times> request list) io \<Rightarrow> 's \<Rightarrow> request list" where
  "requests m s = snd (snd (m (s, [])))"

text \<open>A backend that is down: every request raises and nothing changes.\<close>

definition unreachable :: "unit supabase" where
  "unreachable =
     \<lparr> table_execute = (\<lambda>q. io_raise (APIError ''connection refused'')),
       storage_upload = (\<lambda>bucket path b. io_raise (StorageException ''connection refused'')),
       storage_download = (\<lambda>bucket path. io_raise (StorageException ''connection refused'')) \<rparr>"

section \<open>A reference backend\<close>

text \<open>
  Modelled from the spec: the hosted relational database and the blob store are an external
  service, so no code of theirs is under \<^verbatim>\<open>src/\<close>. The reference backend below is the
  service the spec describes (row-oriented insert, select with an equality filter, update,
  delete; a blob store addressed by bucket and path, where an upload to a path replaces what
  the path held), with the three tables and the constraints of the \<^verbatim>\<open>CREATE TABLE\<close>
  statements in \<^verbatim>\<open>initialize_tables\<close>: \<^verbatim>\<open>PRIMARY KEY\<close>, \<^verbatim>\<open>UNIQUE\<close>, \<^verbatim>\<open>NOT NULL\<close>,
  \<^verbatim>\<open>DEFAULT\<close> for \<^verbatim>\<open>voice_id\<close> and \<^verbatim>\<open>product_recommendations\<close>, and
  \<^verbatim>\<open>FOREIGN KEY ... ON DELETE CASCADE\<close>. It answers every request (it never fails for a
  reason of its own), it returns the rows a request wrote, and it keeps rows in the order
  they were inserted. The server clock is not modelled: a timestamp column holds what the
  request gave it.
\<close>

record db =
  influencers :: "row list"
  affiliate_links :: "row list"
  chat_interactions :: "row list"
  objects :: "string \<times> string \<Rightarrow> bytes option"

definition table_rows :: "db \<Rightarrow> string \<Rightarrow> row list option" where
  "table_rows s t =
     (if t = ''influencers'' then Some (influencers s)
      else if t = ''affiliate_links'' then Some (affiliate_links s)
      else if t = ''chat_interactions'' then Some (chat_interactions s)
      else None)"

definition put_rows :: "string \<Rightarrow> row list \<Rightarrow> db \<Rightarrow> db" where
  "put_rows t rows s =
     (if t = ''influencers'' then s\<lparr>influencers := rows\<rparr>
      else if t = ''affiliate_links'' then s\<lparr>affiliate_links := rows\<rparr>
      else if t = ''chat_interactions'' then s\<lparr>chat_interactions := rows\<rparr>
      else s)"

definition not_null_columns :: "string \<Rightarrow> string list" where
  "not_null_columns t =
     (if t = ''influencers'' then [''id'', ''username'', ''email'', ''password_hash'']
      else if t = ''affiliate_links'' then [''id'', ''influencer_id'', ''platform'', ''affiliate_id'']
      else if t = ''chat_interactions''
        then [''id'', ''influencer_id'', ''user_message'', ''bot_response'']
      else [])"

definition unique_columns :: "string \<Rightarrow> string list" where
  "unique_columns t =
     (if t = ''influencers'' then [''id'', ''username'', ''email''] else [''id''])"

definition column_defaults :: "string \<Rightarrow> row" where
  "column_defaults t =
     (if t = ''influencers'' then [''voice_id'' \<mapsto> PStr ''default_voice'']
      else if t = ''chat_interactions'' then [''product_recommendations'' \<mapsto> PBool False]
      else Map.empty)"

definition references_influencer :: "string \<Rightarrow> bool" where
  "references_influencer t = (t = ''affiliate_links'' \<or> t = ''chat_interactions'')"

definition is_null :: "pyval option \<Rightarrow> bool" where
  "is_null v = (v = None \<or> v = Some PNone)"

text \<open>The filter \<^verbatim>\<open>.eq(c, v)\<close>; a comparison with null selects no row.\<close>

definition matches :: "string \<Rightarrow> pyval \<Rightarrow> row \<Rightarrow> bool" where
  "matches c v x = (v \<noteq> PNone \<and> x c = Some v)"

definition mem_insert :: "string \<Rightarrow> row \<Rightarrow> (row list, db) io" where
  "mem_insert t r s =
     (case table_rows s t of
        None \<Rightarrow> (Inl (APIError ''relation does not exist''), s)
      | Some rows \<Rightarrow>
          (let stored = column_defaults t ++ r
           in if list_ex (\<lambda>c. is_null (stored c)) (not_null_columns t)
              then (Inl (APIError ''not-null violation''), s)
              else if list_ex (\<lambda>c. list_ex (\<lambda>x. x c = stored c) rows) (unique_columns t)
              then (Inl (APIError ''unique violation''), s)
              else if references_influencer t \<and>
                      \<not> list_ex (\<lambda>x. x ''id'' = stored ''influencer_id'') (influencers s)
              then (Inl (APIError ''foreign key violation''), s)
              else (Inr [stored], put_rows t (rows @ [stored]) s)))"

definition mem_select_eq :: "string \<Rightarrow> string \<Rightarrow> pyval \<Rightarrow> (row list, db) io" where
  "mem_select_eq t c v s =
     (case table_rows s t of
        None \<Rightarrow> (Inl (APIError ''relation does not exist''), s)
      | Some rows \<Rightarrow> (Inr (filter (matches c v) rows), s))"

definition mem_select_all :: "string \<Rightarrow> (row list, db) io" where
  "mem_select_all t s =
     (case table_rows s t of
        None \<Rightarrow> (Inl (APIError ''relation does not exist''), s)
      | Some rows \<Rightarrow> (Inr rows, s))"

definition set_where :: "string \<Rightarrow> pyval \<Rightarrow> row \<Rightarrow> row list \<Rightarrow> row list" where
  "set_where c v u rows = map (\<lambda>x. if matches c v x then x ++ u else x) rows"

text \<open>
  An update is checked on the columns it writes: it is rejected when it sets a
  \<^verbatim>\<open>NOT NULL\<close> column to null, when it gives a \<^verbatim>\<open>UNIQUE\<close> column a value that another row
  holds or that two rows would share, or when it breaks a foreign key. An update that
  matches no row changes nothing and is accepted.
\<close>

definition mem_update :: "string \<Rightarrow> row \<Rightarrow> string \<Rightarrow> pyval \<Rightarrow> (row list, db) io" where
  "mem_update t u c v s =
     (case table_rows s t of
        None \<Rightarrow> (Inl (APIError ''relation does not exist''), s)
      | Some rows \<Rightarrow>
          (let hit = filter (matches c v) rows;
               rest = filter (\<lambda>x. \<not> matches c v x) rows
           in if hit = [] then (Inr [], s)
              else if list_ex (\<lambda>k. u k = Some PNone) (not_null_columns t)
              then (Inl (APIError ''not-null violation''), s)
              else if list_ex (\<lambda>k. k \<in> dom u \<and> (1 < length hit \<or> list_ex (\<lambda>x. x k = u k) rest))
                        (unique_columns t)
              then (Inl (APIError ''unique violation''), s)
              else if references_influencer t \<and> ''influencer_id'' \<in> dom u \<and>
                      \<not> list_ex (\<lambda>x. x ''id'' = u ''influencer_id'') (influencers s)
              then (Inl (APIError ''foreign key violation''), s)
              else if t = ''influencers'' \<and> ''id'' \<in> dom u \<and>
                      list_ex (\<lambda>x. x ''id'' \<noteq> u ''id'' \<and>
                                 list_ex (\<lambda>l. l ''influencer_id'' = x ''id'')
                                   (affiliate_links s @ chat_interactions s)) hit
              then (Inl (APIError ''foreign key violation''), s)
              else (Inr (map (\<lambda>x. x ++ u) hit),
                    put_rows t (set_where c v u rows) s)))"

text \<open>Deleting influencers deletes the links and the chat interactions that refer to them.\<close>

definition mem_delete :: "string \<Rightarrow> string \<Rightarrow> pyval \<Rightarrow> (row list, db) io" where
  "mem_delete t c v s =
     (case table_rows s t of
        None \<Rightarrow> (Inl (APIError ''relation does not exist''), s)
      | Some rows \<Rightarrow>
          (let hit = filter (matches c v) rows;
               s1 = put_rows t (filter (\<lambda>x. \<not> matches c v x) rows) s;
               orphan = (\<lambda>l. list_ex (\<lambda>x. x ''id'' = l ''influencer_id'') hit)
           in if t = ''influencers''
              then (Inr hit,
                    s1\<lparr>affiliate_links := filter (\<lambda>l. \<not> orphan l) (affiliate_links s1),
                       chat_interactions := filter (\<lambda>l. \<not> orphan l) (chat_interactions s1)\<rparr>)
              else (Inr hit, s1)))"

fun mem_execute :: "query \<Rightarrow> (row list, db) io" where
  "mem_execute (Insert t r) = mem_insert t r"
| "mem_execute (SelectEq t c v) = mem_select_eq t c v"
| "mem_execute (SelectAll t) = mem_select_all t"
| "mem_execute (UpdateEq t u c v) = mem_update t u c v"
| "mem_execute (DeleteEq t c v) = mem_delete t c v"

definition mem_upload :: "string \<Rightarrow> string \<Rightarrow> bytes \<Rightarrow> (unit, db) io" where
  "mem_upload bucket path b s = (Inr (), s\<lparr>objects := (objects s)((bucket, path) \<mapsto> b)\<rparr>)"

definition mem_download :: "string \<Rightarrow> string \<Rightarrow> (bytes, db) io" where
  "mem_download bucket path s =
     (case objects s (bucket, path) of
        None \<Rightarrow> (Inl (StorageException ''object not found''), s)
      | Some b \<Rightarrow> (Inr b, s))"

definition mem :: "db supabase" where
  "mem = \<lparr> table_execute = mem_execute,
           storage_upload = mem_upload,
           storage_download = mem_download \<rparr>"


definition empty_db :: db where
  "empty_db = \<lparr> influencers = [], affiliate_links = [], chat_interactions = [],
                objects = Map.empty \<rparr>"

text \<open>
  What the layer reads back from the reference backend as an influencer's default
  affiliate id: the \<^verbatim>\<open>affiliate_id\<close> of the first row with that id, \<^verbatim>\<open>None\<close> when there is
  no such row.
\<close>

definition primary_of :: "string \<Rightarrow> row list \<Rightarrow> pyval" where
  "primary_of i rows =
     (case first_or_none (filter (matches ''id'' (PStr i)) rows) of
        None \<Rightarrow> PNone
      | Some r \<Rightarrow> dict_get r ''affiliate_id'')"

text \<open>
  A caller that makes one \<^verbatim>\<open>add_affiliate_link\<close> call after another on the reference
  backend: each call is (influencer id, platform, affiliate id, uuid drawn).
\<close>

fun add_affiliate_links :: "(string \<times> string \<times> string \<times> string) list \<Rightarrow> db \<Rightarrow> db" where
  "add_affiliate_links [] d = d"
| "add_affiliate_links ((j, q, x, w) # calls) d =
     add_affiliate_links calls (snd (add_affiliate_link mem j q x w d))"

text \<open>The reference backend with a blob store whose downloads time out.\<close>

definition mem_no_download :: "db supabase" where
  "mem_no_download =
     mem\<lparr> storage_download := (\<lambda>bucket path. io_raise (StorageException ''timeout'')) \<rparr>"

text \<open>
  The reference backend with some of its table requests timing out: a request that
  \<open>broken\<close> selects raises and changes nothing, every other request is answered as
  before.
\<close>

fun is_update :: "query \<Rightarrow> bool" where
  "is_update (UpdateEq t u c v) = True"
| "is_update q = False"

fun is_select :: "query \<Rightarrow> bool" where
  "is_select (SelectEq t c v) = True"
| "is_select (SelectAll t) = True"
| "is_select q = False"

definition mem_failing :: "(query \<Rightarrow> bool) \<Rightarrow> db supabase" where
  "mem_failing broken =
     mem\<lparr> table_execute := (\<lambda>q.
            if broken q then io_raise (APIError ''timeout'') else mem_execute q) \<rparr>"

section \<open>Example data\<close>

definition alice :: row where
  "alice = [''id'' \<mapsto> PStr ''i1'', ''username'' \<mapsto> PStr ''alice'',
            ''email'' \<mapsto> PStr ''a@x.io'', ''password_hash'' \<mapsto> PStr ''h'']"

definition alice_stored :: row where
  "alice_stored =
     [''voice_id'' \<mapsto> PStr ''default_voice''] ++
     alice(''chat_page_url'' \<mapsto> PStr ''/chat/alice'')"

definition db_alice :: db where
  "db_alice = empty_db\<lparr>influencers := [alice_stored]\<rparr>"

definition abc :: bytes where
  "abc = [0x61, 0x62, 0x63]"

definition alice_avatar :: row where
  "alice_avatar =
     alice_stored(''original_asset_path'' \<mapsto> PStr ''original_avatars/i1/avatar.png'')"

definition db_avatar :: db where
  "db_avatar =
     empty_db\<lparr>influencers := [alice_avatar],
              objects := [(''influencer-assets'', ''original_avatars/i1/avatar.png'') \<mapsto> abc]\<rparr>"

definition db_alice_A :: db where
  "db_alice_A =
     empty_db\<lparr>influencers :=
                [alice_stored(''affiliate_id'' \<mapsto> PStr ''A'', ''updated_at'' \<mapsto> PStr ''now()'')],
              affiliate_links := [affiliate_data ''i1'' ''shop'' ''A'' ''u1'']\<rparr>"

section \<open>Facts about the model\<close>

lemmas io_defs =
  io_return_def io_raise_def io_lift_def io_bind_def try_except_def drop_dict_def


lemmas mem_defs =
  mem_def mem_insert_def mem_select_eq_def mem_select_all_def mem_update_def mem_delete_def
  mem_upload_def mem_download_def table_rows_def put_rows_def not_null_columns_def
  unique_columns_def column_defaults_def references_influencer_def is_null_def matches_def
  set_where_def

lemmas example_defs =
  alice_def alice_stored_def db_alice_def empty_db_def abc_def alice_avatar_def db_avatar_def
  db_alice_A_def

lemmas method_defs =
  create_influencer_def get_influencer_by_username_def get_influencer_by_email_def
  get_influencer_def update_influencer_def delete_influencer_def get_all_influencers_def
  store_original_asset_def get_original_asset_def add_affiliate_link_def
  get_affiliate_links_def get_primary_affiliate_id_def log_chat_interaction_def
  required_fields_def bucket_name_def asset_path_def affiliate_data_def interaction_data_def
  dict_get_def dict_index_def first_or_none_def requests_def traced_def Let_def

lemma filter_none: "\<not> list_ex P xs \<Longrightarrow> filter P xs = []"
  by (simp add: list_ex_iff filter_empty_conv)

subsection \<open>The methods on the reference backend\<close>

lemma mem_fields:
  "table_execute mem = mem_execute"
  "storage_upload mem = mem_upload"
  "storage_download mem = mem_download"
  by (simp_all add: mem_def)

lemma select_set_where_same:
  "u ''id'' = None \<Longrightarrow>
   filter (matches ''id'' (PStr i)) (set_where ''id'' (PStr i) u rows) =
     map (\<lambda>x. x ++ u) (filter (matches ''id'' (PStr i)) rows)"
  by (induction rows) (simp_all add: set_where_def matches_def map_add_def)

lemma select_set_where_other:
  "u ''id'' = None \<Longrightarrow> i \<noteq> j \<Longrightarrow>
   filter (matches ''id'' (PStr i)) (set_where ''id'' (PStr j) u rows) =
     filter (matches ''id'' (PStr i)) rows"
  by (induction rows) (simp_all add: set_where_def matches_def map_add_def)

lemma set_where_no_match:
  "filter (matches c v) rows = [] \<Longrightarrow> set_where c v u rows = rows"
  by (induction rows) (simp_all add: set_where_def split: if_splits)

lemma first_or_none_Some: "first_or_none xs = Some r \<Longrightarrow> \<exists>rest. xs = r # rest"
  by (cases xs) (simp_all add: first_or_none_def)

lemma first_or_none_map: "first_or_none (map f xs) = map_option f (first_or_none xs)"
  by (cases xs) (simp_all add: first_or_none_def)

lemma first_match_dom:
  assumes "first_or_none (filter (matches c v) rows) = Some r"
  shows "dom r \<noteq> {}" and "matches c v r"
proof -
  from assms obtain rest where "filter (matches c v) rows = r # rest"
    using first_or_none_Some by blast
  then show "matches c v r"
    by (metis filter_eq_Cons_iff)
  then show "dom r \<noteq> {}"
    by (auto simp add: matches_def)
qed

lemma referenced_selected:
  "list_ex (\<lambda>x. x ''id'' = Some (PStr i)) rows \<Longrightarrow>
   \<exists>r. first_or_none (filter (matches ''id'' (PStr i)) rows) = Some r"
  by (induction rows) (auto simp add: matches_def first_or_none_def)

lemma unreferenced_not_selected:
  "\<not> list_ex (\<lambda>x. x ''id'' = Some (PStr i)) rows \<Longrightarrow>
   filter (matches ''id'' (PStr i)) rows = []"
  by (induction rows) (auto simp add: matches_def)

lemma get_influencer_mem:
  "get_influencer mem i d =
     (Inr (first_or_none (filter (matches ''id'' (PStr i)) (influencers d))), d)"
  by (simp add: get_influencer_def mem_def mem_select_eq_def table_rows_def io_defs)

lemma get_primary_affiliate_id_mem:
  "get_primary_affiliate_id mem i d = (Inr (primary_of i (influencers d)), d)"
proof (cases "first_or_none (filter (matches ''id'' (PStr i)) (influencers d))")
  case None
  then show ?thesis
    by (simp add: get_primary_affiliate_id_def get_influencer_mem io_defs primary_of_def)
next
  case (Some r)
  then have "dom r \<noteq> {}"
    by (rule first_match_dom)
  with Some show ?thesis
    by (simp add: get_primary_affiliate_id_def get_influencer_mem io_defs primary_of_def)
qed

text \<open>
  An update that writes none of the constrained columns of \<^verbatim>\<open>influencers\<close> is accepted
  by the reference backend.
\<close>

lemma update_influencer_mem_free:
  assumes "dom u \<noteq> {}"
    and "u ''id'' = None" "u ''username'' = None" "u ''email'' = None"
        "u ''password_hash'' = None"
  shows "update_influencer mem i u d =
     (Inr True, u(''updated_at'' \<mapsto> PStr ''now()''),
      d\<lparr>influencers :=
          set_where ''id'' (PStr i) (u(''updated_at'' \<mapsto> PStr ''now()'')) (influencers d)\<rparr>)"
proof (cases "filter (matches ''id'' (PStr i)) (influencers d) = []")
  case True
  then show ?thesis using assms
    by (simp add: update_influencer_def mem_def mem_update_def table_rows_def io_defs
        set_where_no_match Let_def)
next
  case False
  then show ?thesis using assms
    by (simp add: update_influencer_def mem_def mem_update_def table_rows_def put_rows_def
        io_defs Let_def not_null_columns_def unique_columns_def references_influencer_def dom_def)
qed

lemma mem_insert_link:
  "mem_insert ''affiliate_links'' (affiliate_data i p a u) d =
     (if list_ex (\<lambda>x. x ''id'' = Some (PStr u)) (affiliate_links d)
      then (Inl (APIError ''unique violation''), d)
      else if \<not> list_ex (\<lambda>x. x ''id'' = Some (PStr i)) (influencers d)
      then (Inl (APIError ''foreign key violation''), d)
      else (Inr [affiliate_data i p a u],
            d\<lparr>affiliate_links := affiliate_links d @ [affiliate_data i p a u]\<rparr>))"
  by (simp add: mem_insert_def table_rows_def put_rows_def not_null_columns_def
      unique_columns_def column_defaults_def references_influencer_def is_null_def
      affiliate_data_def Let_def)

text \<open>
  \<^verbatim>\<open>add_affiliate_link\<close> on the reference backend: nothing happens when the insert is
  rejected; otherwise the link is stored and returned, and the influencer's
  \<^verbatim>\<open>affiliate_id\<close> is written exactly when the one read back was falsy.
\<close>

lemma add_affiliate_link_mem:
  "add_affiliate_link mem i p a u d =
     (if isl (fst (mem_insert ''affiliate_links'' (affiliate_data i p a u) d)) then (Inr None, d)
      else if truthy (primary_of i (influencers d))
      then (Inr (Some (affiliate_data i p a u)),
            d\<lparr>affiliate_links := affiliate_links d @ [affiliate_data i p a u]\<rparr>)
      else (Inr (Some (affiliate_data i p a u)),
            d\<lparr>affiliate_links := affiliate_links d @ [affiliate_data i p a u],
              influencers := set_where ''id'' (PStr i)
                 [''affiliate_id'' \<mapsto> PStr a, ''updated_at'' \<mapsto> PStr ''now()'']
                 (influencers d)\<rparr>))"
proof (cases "isl (fst (mem_insert ''affiliate_links'' (affiliate_data i p a u) d))")
  case True
  then have "\<exists>e. mem_insert ''affiliate_links'' (affiliate_data i p a u) d = (Inl e, d)"
    by (simp add: mem_insert_link split: if_splits)
  then obtain e where "mem_insert ''affiliate_links'' (affiliate_data i p a u) d = (Inl e, d)" ..
  with True show ?thesis
    by (simp add: add_affiliate_link_def mem_fields io_defs)
next
  case False
  then have ins: "mem_insert ''affiliate_links'' (affiliate_data i p a u) d =
      (Inr [affiliate_data i p a u],
       d\<lparr>affiliate_links := affiliate_links d @ [affiliate_data i p a u]\<rparr>)"
    and "list_ex (\<lambda>x. x ''id'' = Some (PStr i)) (influencers d)"
    by (simp_all add: mem_insert_link split: if_splits)
  then obtain r where
    r: "first_or_none (filter (matches ''id'' (PStr i)) (influencers d)) = Some r"
    using referenced_selected by blast
  have upd: "drop_dict (update_influencer mem i [''affiliate_id'' \<mapsto> PStr a]) d' =
      (Inr True, d'\<lparr>influencers := set_where ''id'' (PStr i)
                 [''affiliate_id'' \<mapsto> PStr a, ''updated_at'' \<mapsto> PStr ''now()'']
                 (influencers d')\<rparr>)" for d'
    by (simp add: drop_dict_def update_influencer_mem_free)
  have "add_affiliate_link mem i p a u d =
     (if truthy (dict_get r ''affiliate_id'')
      then (Inr (Some (affiliate_data i p a u)),
            d\<lparr>affiliate_links := affiliate_links d @ [affiliate_data i p a u]\<rparr>)
      else (Inr (Some (affiliate_data i p a u)),
            d\<lparr>affiliate_links := affiliate_links d @ [affiliate_data i p a u],
              influencers := set_where ''id'' (PStr i)
                 [''affiliate_id'' \<mapsto> PStr a, ''updated_at'' \<mapsto> PStr ''now()'']
                 (influencers d)\<rparr>))"
    using ins r
    by (simp add: add_affiliate_link_def mem_fields get_influencer_mem upd
        io_return_def io_raise_def io_bind_def try_except_def first_or_none_def)
  with False r show ?thesis
    by (simp add: primary_of_def)
qed

lemma primary_of_set_where_same:
  assumes "first_or_none (filter (matches ''id'' (PStr i)) rows) = Some r"
  shows "primary_of i (set_where ''id'' (PStr i)
           [''affiliate_id'' \<mapsto> PStr a, ''updated_at'' \<mapsto> PStr ''now()''] rows) = PStr a"
  using assms
  by (simp add: primary_of_def select_set_where_same first_or_none_map dict_get_def)

lemma primary_of_set_where_other:
  "u ''id'' = None \<Longrightarrow> i \<noteq> j \<Longrightarrow>
   primary_of i (set_where ''id'' (PStr j) u rows) = primary_of i rows"
  by (simp add: primary_of_def select_set_where_other)

lemma add_affiliate_link_keeps_default:
  assumes "truthy (primary_of i (influencers d))"
  shows "primary_of i (influencers (snd (add_affiliate_link mem j q x w d))) =
         primary_of i (influencers d)"
proof (cases "i = j")
  case True
  with assms show ?thesis
    by (simp add: add_affiliate_link_mem)
next
  case False
  then show ?thesis
    by (simp add: add_affiliate_link_mem primary_of_set_where_other)
qed

lemma add_affiliate_link_sets_default:
  assumes "fst (get_influencer mem i d) = Inr (Some r)"
    and "\<not> truthy (dict_get r ''affiliate_id'')"
    and "fst (add_affiliate_link mem i p a u d) \<noteq> Inr None"
  shows "primary_of i (influencers (snd (add_affiliate_link mem i p a u d))) = PStr a"
proof -
  from assms(1) have
    r: "first_or_none (filter (matches ''id'' (PStr i)) (influencers d)) = Some r"
    by (simp add: get_influencer_mem)
  with assms(2) have "\<not> truthy (primary_of i (influencers d))"
    by (simp add: primary_of_def)
  moreover from assms(3) have
    "\<not> isl (fst (mem_insert ''affiliate_links'' (affiliate_data i p a u) d))"
    by (auto simp add: add_affiliate_link_mem)
  ultimately show ?thesis
    using r by (simp add: add_affiliate_link_mem primary_of_set_where_same)
qed

lemma later_links_keep_default:
  assumes "truthy (primary_of i (influencers d))"
  shows "primary_of i (influencers (add_affiliate_links calls d)) =
         primary_of i (influencers d)"
  using assms
proof (induction calls d rule: add_affiliate_links.induct)
  case (1 d)
  then show ?case by simp
next
  case (2 j q x w calls d)
  let ?d1 = "snd (add_affiliate_link mem j q x w d)"
  have keep: "primary_of i (influencers ?d1) = primary_of i (influencers d)"
    using "2.prems" by (rule add_affiliate_link_keeps_default)
  with "2.prems" have "truthy (primary_of i (influencers ?d1))"
    by simp
  then have "primary_of i (influencers (add_affiliate_links calls ?d1)) =
      primary_of i (influencers ?d1)"
    by (rule "2.IH")
  with keep show ?case
    by simp
qed

lemma asset_path_nonempty: "asset_path i f \<noteq> []"
  by (simp add: asset_path_def)

lemma store_original_asset_mem:
  "store_original_asset mem i b f d =
     (Inr (Some (asset_path i f)),
      d\<lparr>objects := (objects d)((bucket_name, asset_path i f) \<mapsto> b),
        influencers := set_where ''id'' (PStr i)
          [''original_asset_path'' \<mapsto> PStr (asset_path i f), ''updated_at'' \<mapsto> PStr ''now()'']
          (influencers d)\<rparr>)"
  by (simp add: store_original_asset_def mem_fields mem_upload_def drop_dict_def
      update_influencer_mem_free io_return_def io_bind_def try_except_def Let_def)

lemma get_original_asset_mem:
  assumes "first_or_none (filter (matches ''id'' (PStr i)) (influencers d)) = Some r"
    and "r ''original_asset_path'' = Some (PStr path)" and "path \<noteq> []"
  shows "get_original_asset mem i d = (Inr (objects d (bucket_name, path)), d)"
proof -
  from assms(1) have "dom r \<noteq> {}"
    by (rule first_match_dom)
  with assms show ?thesis
    by (simp add: get_original_asset_def get_influencer_mem mem_fields mem_download_def
        dict_get_def dict_index_def io_defs split: option.splits)
qed

lemma stored_record_after_store:
  assumes "first_or_none (filter (matches ''id'' (PStr i)) (influencers d)) = Some r"
  shows "first_or_none (filter (matches ''id'' (PStr i))
           (influencers (snd (store_original_asset mem i b f d)))) =
         Some (r ++ [''original_asset_path'' \<mapsto> PStr (asset_path i f),
                     ''updated_at'' \<mapsto> PStr ''now()''])"
  using assms
  by (simp add: store_original_asset_mem select_set_where_same first_or_none_map)

lemma get_after_store:
  assumes "first_or_none (filter (matches ''id'' (PStr i)) (influencers d)) = Some r"
  shows "fst (get_original_asset mem i (snd (store_original_asset mem i b f d))) = Inr (Some b)"
proof -
  let ?d1 = "snd (store_original_asset mem i b f d)"
  let ?r1 = "r ++ [''original_asset_path'' \<mapsto> PStr (asset_path i f),
                   ''updated_at'' \<mapsto> PStr ''now()'']"
  have "first_or_none (filter (matches ''id'' (PStr i)) (influencers ?d1)) = Some ?r1"
    using assms by (rule stored_record_after_store)
  moreover have "?r1 ''original_asset_path'' = Some (PStr (asset_path i f))"
    by simp
  ultimately have "get_original_asset mem i ?d1 =
      (Inr (objects ?d1 (bucket_name, asset_path i f)), ?d1)"
    using asset_path_nonempty by (rule get_original_asset_mem)
  then show ?thesis
    by (simp add: store_original_asset_mem)
qed

lemma store_original_asset_path:
  "fst (store_original_asset sb i b f s) = Inr (Some path) \<Longrightarrow>
   path = ''original_avatars/'' @ i @ ''/'' @ f"
  by (auto simp add: store_original_asset_def asset_path_def io_defs Let_def
      split: prod.splits sum.splits)

lemma store_original_asset_upload_first:
  "\<exists>rest. requests (store_original_asset (traced sb) i b f) s =
     UploadRequest ''influencer-assets'' (''original_avatars/'' @ i @ ''/'' @ f) b # rest"
  by (auto simp add: store_original_asset_def update_influencer_def asset_path_def
      bucket_name_def requests_def traced_def io_defs Let_def split: prod.splits sum.splits)


lemma update_influencer_sends:
  "dom updates \<noteq> {} \<Longrightarrow>
   requests (drop_dict (update_influencer (traced sb) i updates)) s =
     [TableRequest
        (UpdateEq ''influencers'' (updates(''updated_at'' \<mapsto> PStr ''now()'')) ''id'' (PStr i))]"
  by (simp add: update_influencer_def requests_def traced_def io_defs Let_def
      split: prod.splits sum.splits)

lemma update_influencer_mem_cases:
  assumes "dom u \<noteq> {}"
  shows "update_influencer mem i u d = (Inr False, u(''updated_at'' \<mapsto> PStr ''now()''), d)
     \<or> update_influencer mem i u d =
         (Inr True, u(''updated_at'' \<mapsto> PStr ''now()''),
          d\<lparr>influencers :=
              set_where ''id'' (PStr i) (u(''updated_at'' \<mapsto> PStr ''now()'')) (influencers d)\<rparr>)"
proof (cases "filter (matches ''id'' (PStr i)) (influencers d) = []")
  case True
  then show ?thesis using assms
    by (simp add: update_influencer_def mem_def mem_update_def table_rows_def io_defs
        set_where_no_match Let_def)
next
  case False
  then show ?thesis using assms
    by (simp add: update_influencer_def mem_def mem_update_def table_rows_def put_rows_def
        io_defs Let_def)
qed

lemma update_influencer_mem_empty:
  "dom u = {} \<Longrightarrow> update_influencer mem i u d = (Inr False, u, d)"
  by (simp add: update_influencer_def)

lemma mem_insert_accepted:
  assumes "mem_insert t new d = (Inr data, d')"
  shows "\<exists>rows. table_rows d t = Some rows
           \<and> data = [column_defaults t ++ new]
           \<and> d' = put_rows t (rows @ [column_defaults t ++ new]) d
           \<and> \<not> list_ex (\<lambda>c. list_ex (\<lambda>x. x c = (column_defaults t ++ new) c) rows)
                 (unique_columns t)"
  using assms
  by (auto simp add: mem_insert_def Let_def split: option.splits if_splits)

lemma create_influencer_sends:
  assumes "set required_fields \<subseteq> dom influencer_data"
    and "influencer_data ''username'' = Some (PStr u)"
  shows "create_influencer sb influencer_data s =
     (case table_execute sb
             (Insert ''influencers'' (influencer_data(''chat_page_url'' \<mapsto> PStr (''/chat/'' @ u))))
             s of
        (Inl e, s') \<Rightarrow>
          (Inr None, influencer_data(''chat_page_url'' \<mapsto> PStr (''/chat/'' @ u)), s')
      | (Inr data, s') \<Rightarrow>
          (Inr (first_or_none data),
           influencer_data(''chat_page_url'' \<mapsto> PStr (''/chat/'' @ u)), s'))"
  using assms
  by (auto simp add: create_influencer_def required_fields_def dict_index_def io_defs Let_def
      split: prod.splits sum.splits)

lemma create_influencer_None:
  "\<not> set required_fields \<subseteq> dom influencer_data \<Longrightarrow>
   fst (create_influencer sb influencer_data s) = Inr None"
  by (auto simp add: create_influencer_def required_fields_def)

lemma create_influencer_runs:
  assumes "set required_fields \<subseteq> dom influencer_data"
  shows "create_influencer sb influencer_data s =
     (case table_execute sb
             (Insert ''influencers''
                (influencer_data(''chat_page_url'' \<mapsto>
                   PStr (''/chat/'' @ py_format (dict_get influencer_data ''username''))))) s of
        (Inl e, s') \<Rightarrow>
          (Inr None,
           influencer_data(''chat_page_url'' \<mapsto>
             PStr (''/chat/'' @ py_format (dict_get influencer_data ''username''))), s')
      | (Inr data, s') \<Rightarrow>
          (Inr (first_or_none data),
           influencer_data(''chat_page_url'' \<mapsto>
             PStr (''/chat/'' @ py_format (dict_get influencer_data ''username''))), s'))"
  using assms
  by (auto simp add: create_influencer_def required_fields_def dict_index_def dict_get_def
      io_defs Let_def split: prod.splits sum.splits)

lemma create_influencer_request:
  assumes "set required_fields \<subseteq> dom influencer_data"
  shows "requests (drop_dict (create_influencer (traced sb) influencer_data)) s =
     [TableRequest (Insert ''influencers''
        (influencer_data(''chat_page_url'' \<mapsto>
           PStr (''/chat/'' @ py_format (dict_get influencer_data ''username'')))))]"
  by (simp add: create_influencer_runs [OF assms] requests_def drop_dict_def traced_def
      split: prod.splits sum.splits)

lemma create_influencer_mem_inserted:
  assumes created: "fst (create_influencer mem influencer_data d) = Inr (Some r)"
  shows "r = column_defaults ''influencers'' ++
             influencer_data(''chat_page_url'' \<mapsto>
               PStr (''/chat/'' @ py_format (dict_get influencer_data ''username'')))"
    and "snd (snd (create_influencer mem influencer_data d)) =
           d\<lparr>influencers := influencers d @ [r]\<rparr>"
proof -
  let ?new = "influencer_data(''chat_page_url'' \<mapsto>
     PStr (''/chat/'' @ py_format (dict_get influencer_data ''username'')))"
  have req: "set required_fields \<subseteq> dom influencer_data"
    using created create_influencer_None [of influencer_data mem d] by auto
  obtain res d' where ins: "mem_insert ''influencers'' ?new d = (res, d')"
    by (cases "mem_insert ''influencers'' ?new d")
  have run: "create_influencer mem influencer_data d =
      (case (res, d') of
         (Inl e, s') \<Rightarrow> (Inr None, ?new, s')
       | (Inr data, s') \<Rightarrow> (Inr (first_or_none data), ?new, s'))"
    using create_influencer_runs [OF req, of mem d] ins
    by (simp add: mem_fields)
  with created obtain data where res: "res = Inr data" and first: "first_or_none data = Some r"
    by (cases res) auto
  from ins res obtain rows where
    acc: "table_rows d ''influencers'' = Some rows"
      "data = [column_defaults ''influencers'' ++ ?new]"
      "d' = put_rows ''influencers'' (rows @ [column_defaults ''influencers'' ++ ?new]) d"
    using mem_insert_accepted by blast
  from acc(2) first show r: "r = column_defaults ''influencers'' ++ ?new"
    by (simp add: first_or_none_def)
  from acc(1) have rows: "rows = influencers d"
    by (simp add: table_rows_def)
  from run res acc(3) r rows
  show "snd (snd (create_influencer mem influencer_data d)) =
      d\<lparr>influencers := influencers d @ [r]\<rparr>"
    by (simp add: put_rows_def)
qed

lemma create_influencer_mem_stored:
  assumes created: "fst (create_influencer mem influencer_data d) = Inr (Some r)"
    and name: "influencer_data ''username'' = Some (PStr u)"
  shows "r = [''voice_id'' \<mapsto> PStr ''default_voice''] ++
             influencer_data(''chat_page_url'' \<mapsto> PStr (''/chat/'' @ u))"
    and "snd (snd (create_influencer mem influencer_data d)) =
           d\<lparr>influencers := influencers d @ [r]\<rparr>"
    and "\<not> list_ex (\<lambda>x. x ''id'' = influencer_data ''id'') (influencers d)"
proof -
  let ?new = "influencer_data(''chat_page_url'' \<mapsto> PStr (''/chat/'' @ u))"
  have req: "set required_fields \<subseteq> dom influencer_data"
    using created create_influencer_None [of influencer_data mem d] by auto
  obtain res d' where ins: "mem_insert ''influencers'' ?new d = (res, d')"
    by (cases "mem_insert ''influencers'' ?new d")
  have run: "create_influencer mem influencer_data d =
      (case (res, d') of
         (Inl e, s') \<Rightarrow> (Inr None, ?new, s')
       | (Inr data, s') \<Rightarrow> (Inr (first_or_none data), ?new, s'))"
    using create_influencer_sends [OF req name, of mem d] ins
    by (simp add: mem_fields)
  with created obtain data where res: "res = Inr data" and first: "first_or_none data = Some r"
    by (cases res) auto
  from ins res obtain rows where
    acc: "table_rows d ''influencers'' = Some rows"
      "data = [column_defaults ''influencers'' ++ ?new]"
      "d' = put_rows ''influencers'' (rows @ [column_defaults ''influencers'' ++ ?new]) d"
      "\<not> list_ex (\<lambda>c. list_ex (\<lambda>x. x c = (column_defaults ''influencers'' ++ ?new) c) rows)
           (unique_columns ''influencers'')"
    using mem_insert_accepted by blast
  from acc(2) first show r: "r = [''voice_id'' \<mapsto> PStr ''default_voice''] ++ ?new"
    by (simp add: first_or_none_def column_defaults_def)
  from acc(1) have rows: "rows = influencers d"
    by (simp add: table_rows_def)
  from run res acc(3) r rows
  show "snd (snd (create_influencer mem influencer_data d)) =
      d\<lparr>influencers := influencers d @ [r]\<rparr>"
    by (simp add: put_rows_def column_defaults_def)
  have "(column_defaults ''influencers'' ++ ?new) ''id'' = influencer_data ''id''"
    by (cases "influencer_data ''id''") (simp_all add: column_defaults_def map_add_def)
  with acc(4) rows show "\<not> list_ex (\<lambda>x. x ''id'' = influencer_data ''id'') (influencers d)"
    by (simp add: unique_columns_def)
qed

subsection \<open>No method lets an exception out\<close>

lemma try_except_returns:
  "(\<And>e s'. \<not> propagates (handler e s')) \<Longrightarrow> \<not> propagates (try_except body handler s)"
  by (simp add: try_except_def propagates_def split: prod.splits sum.splits)

lemma io_return_returns: "\<not> propagates (io_return v s)"
  by (simp add: io_return_def propagates_def)

text \<open>
  The two methods with code outside their \<^verbatim>\<open>try\<close>: the subscript
  \<^verbatim>\<open>influencer_data['username']\<close> comes after the check of the required fields, and the
  emptiness test of \<^verbatim>\<open>updates\<close> cannot raise.
\<close>

lemma create_influencer_returns: "\<not> propagates (create_influencer sb influencer_data s)"
  by (auto simp add: create_influencer_def required_fields_def dict_index_def io_defs
      propagates_def Let_def split: prod.splits sum.splits option.splits)

lemma update_influencer_returns: "\<not> propagates (update_influencer sb influencer_id updates s)"
  by (simp add: update_influencer_def io_defs propagates_def Let_def
      split: prod.splits sum.splits)

text \<open>Every other method is one \<^verbatim>\<open>try\<close> whose handler returns a constant.\<close>

lemma guarded_methods_return:
  "\<not> propagates (get_influencer_by_username sb username s)"
  "\<not> propagates (get_influencer_by_email sb email s)"
  "\<not> propagates (get_influencer sb influencer_id s)"
  "\<not> propagates (delete_influencer sb influencer_id s)"
  "\<not> propagates (get_all_influencers sb s)"
  "\<not> propagates (store_original_asset sb influencer_id file_bytes file_name s)"
  "\<not> propagates (get_original_asset sb influencer_id s)"
  "\<not> propagates (add_affiliate_link sb influencer_id platform affiliate_id uid s)"
  "\<not> propagates (get_affiliate_links sb influencer_id s)"
  "\<not> propagates (get_primary_affiliate_id sb influencer_id s)"
  "\<not> propagates (log_chat_interaction sb influencer_id user_message bot_response
       product_recommendations uid s)"
  by (simp_all add: get_influencer_by_username_def get_influencer_by_email_def
      get_influencer_def delete_influencer_def get_all_influencers_def
      store_original_asset_def get_original_asset_def add_affiliate_link_def
      get_affiliate_links_def get_primary_affiliate_id_def log_chat_interaction_def
      try_except_returns io_return_returns)

lemma sentinel_on_raise:
  "isl (fst (table_execute sb (Insert ''influencers''
       (influencer_data(''chat_page_url'' \<mapsto>
          PStr (''/chat/'' @ py_format (dict_get influencer_data ''username''))))) s)) \<Longrightarrow>
     fst (create_influencer sb influencer_data s) = Inr None"
  "isl (fst (table_execute sb (SelectEq ''influencers'' ''username'' (PStr username)) s)) \<Longrightarrow>
     fst (get_influencer_by_username sb username s) = Inr None"
  "isl (fst (table_execute sb (SelectEq ''influencers'' ''email'' (PStr email)) s)) \<Longrightarrow>
     fst (get_influencer_by_email sb email s) = Inr None"
  "isl (fst (table_execute sb (SelectEq ''influencers'' ''id'' (PStr influencer_id)) s)) \<Longrightarrow>
     fst (get_influencer sb influencer_id s) = Inr None"
  "isl (fst (table_execute sb (UpdateEq ''influencers''
       (updates(''updated_at'' \<mapsto> PStr ''now()'')) ''id'' (PStr influencer_id)) s)) \<Longrightarrow>
     fst (update_influencer sb influencer_id updates s) = Inr False"
  "isl (fst (table_execute sb (DeleteEq ''influencers'' ''id'' (PStr influencer_id)) s)) \<Longrightarrow>
     fst (delete_influencer sb influencer_id s) = Inr False"
  "isl (fst (table_execute sb (SelectAll ''influencers'') s)) \<Longrightarrow>
     fst (get_all_influencers sb s) = Inr []"
  "isl (fst (table_execute sb
       (SelectEq ''affiliate_links'' ''influencer_id'' (PStr influencer_id)) s)) \<Longrightarrow>
     fst (get_affiliate_links sb influencer_id s) = Inr []"
  by (auto simp add: create_influencer_def get_influencer_by_username_def
      get_influencer_by_email_def get_influencer_def update_influencer_def
      delete_influencer_def get_all_influencers_def get_affiliate_links_def
      required_fields_def dict_index_def dict_get_def io_defs Let_def
      split: prod.splits sum.splits option.splits)

lemma sentinel_on_first_raise:
  "isl (fst (storage_upload sb bucket_name (asset_path influencer_id file_name) file_bytes s)) \<Longrightarrow>
     fst (store_original_asset sb influencer_id file_bytes file_name s) = Inr None"
  "isl (fst (table_execute sb (SelectEq ''influencers'' ''id'' (PStr influencer_id)) s)) \<Longrightarrow>
     fst (get_original_asset sb influencer_id s) = Inr None"
  "isl (fst (table_execute sb (Insert ''affiliate_links''
       (affiliate_data influencer_id platform affiliate_id uid)) s)) \<Longrightarrow>
     fst (add_affiliate_link sb influencer_id platform affiliate_id uid s) = Inr None"
  "isl (fst (table_execute sb (SelectEq ''influencers'' ''id'' (PStr influencer_id)) s)) \<Longrightarrow>
     fst (get_primary_affiliate_id sb influencer_id s) = Inr PNone"
  "isl (fst (table_execute sb (Insert ''chat_interactions''
       (interaction_data influencer_id user_message bot_response product_recommendations uid))
       s)) \<Longrightarrow>
     fst (log_chat_interaction sb influencer_id user_message bot_response
       product_recommendations uid s) = Inr None"
  by (auto simp add: store_original_asset_def get_original_asset_def add_affiliate_link_def
      get_primary_affiliate_id_def log_chat_interaction_def get_influencer_def
      io_defs Let_def split: prod.splits sum.splits)

lemma download_raises:
  assumes "get_influencer sb influencer_id s = (Inr (Some r), s1)"
    and "r ''original_asset_path'' = Some (PStr p)" and "p \<noteq> []"
    and "isl (fst (storage_download sb bucket_name p s1))"
  shows "fst (get_original_asset sb influencer_id s) = Inr None"
  using assms
  by (auto simp add: get_original_asset_def dict_get_def dict_index_def io_defs
      split: prod.splits sum.splits)

text \<open>
  The update request inside \<^verbatim>\<open>store_original_asset\<close> and \<^verbatim>\<open>add_affiliate_link\<close> is sent
  by \<^verbatim>\<open>update_influencer\<close>, whose own handler takes its exception; the outer method
  ignores what \<^verbatim>\<open>update_influencer\<close> returns and goes on.
\<close>

lemma store_after_upload:
  "\<not> isl (fst (storage_upload sb bucket_name (asset_path influencer_id file_name) file_bytes s)) \<Longrightarrow>
   fst (store_original_asset sb influencer_id file_bytes file_name s) =
     Inr (Some (asset_path influencer_id file_name))"
  by (auto simp add: store_original_asset_def update_influencer_def io_defs Let_def
      split: prod.splits sum.splits)

lemma add_after_lookup:
  assumes "table_execute sb (Insert ''affiliate_links''
       (affiliate_data influencer_id platform affiliate_id uid)) s = (Inr data, s2)"
    and "get_influencer sb influencer_id s2 = (Inr (Some found), s3)"
  shows "fst (add_affiliate_link sb influencer_id platform affiliate_id uid s) =
     Inr (first_or_none data)"
  using assms
  by (auto simp add: add_affiliate_link_def update_influencer_def io_defs Let_def
      split: prod.splits sum.splits)

lemma add_lookup_raises:
  assumes "table_execute sb (Insert ''affiliate_links''
       (affiliate_data influencer_id platform affiliate_id uid)) s = (Inr data, s2)"
    and "isl (fst (table_execute sb (SelectEq ''influencers'' ''id'' (PStr influencer_id)) s2))"
  shows "fst (add_affiliate_link sb influencer_id platform affiliate_id uid s) = Inr None"
  using assms
  by (auto simp add: add_affiliate_link_def get_influencer_def io_defs Let_def
      split: prod.splits sum.splits)

section \<open>Claims\<close>



text \<open>
  C5. For every non-empty update map, \<^verbatim>\<open>update_influencer\<close> returns \<^verbatim>\<open>True\<close> exactly
  when the backend's update request does not raise, and \<^verbatim>\<open>False\<close> exactly when it
  raises; how many rows the request matched plays no part. In particular, on the reference
  backend an update for an id that no influencer row has returns \<^verbatim>\<open>True\<close> and changes
  nothing.
\<close>

theorem update_influencer_reports_success:
  assumes "dom updates \<noteq> {}"
  shows "(fst (update_influencer sb influencer_id updates s) = Inr True) =
           (\<not> isl (fst (table_execute sb
              (UpdateEq ''influencers'' (updates(''updated_at'' \<mapsto> PStr ''now()'')) ''id''
                 (PStr influencer_id)) s)))
       \<and> (fst (update_influencer sb influencer_id updates s) = Inr False) =
           isl (fst (table_execute sb
              (UpdateEq ''influencers'' (updates(''updated_at'' \<mapsto> PStr ''now()'')) ''id''
                 (PStr influencer_id)) s))
       \<and> (\<not> list_ex (matches ''id'' (PStr influencer_id)) (influencers d) \<longrightarrow>
            update_influencer mem influencer_id updates d =
              (Inr True, updates(''updated_at'' \<mapsto> PStr ''now()''), d))"
  using assms
  by (auto simp add: update_influencer_def io_defs Let_def mem_def mem_update_def
      table_rows_def filter_none split: prod.splits sum.splits)

theorem update_influencer_reports_success_witness:
  "dom [''voice_id'' \<mapsto> PStr ''v2''] \<noteq> {}
   \<and> \<not> list_ex (matches ''id'' (PStr ''ghost'')) (influencers db_alice)
   \<and> update_influencer mem ''ghost'' [''voice_id'' \<mapsto> PStr ''v2''] db_alice =
       (Inr True, [''voice_id'' \<mapsto> PStr ''v2'', ''updated_at'' \<mapsto> PStr ''now()''], db_alice)
   \<and> isl (fst (table_execute unreachable
        (UpdateEq ''influencers'' [''voice_id'' \<mapsto> PStr ''v2'', ''updated_at'' \<mapsto> PStr ''now()'']
           ''id'' (PStr ''ghost'')) ()))
   \<and> fst (update_influencer unreachable ''ghost'' [''voice_id'' \<mapsto> PStr ''v2''] ()) = Inr False"
  using update_influencer_reports_success
    [of "[''voice_id'' \<mapsto> PStr ''v2'']" mem "''ghost''" db_alice db_alice]
    update_influencer_reports_success
    [of "[''voice_id'' \<mapsto> PStr ''v2'']" unreachable "''ghost''" "()" db_alice]
  by (simp add: example_defs matches_def unreachable_def io_raise_def)

text \<open>
  C9. \<^verbatim>\<open>get_all_influencers\<close> returns the rows of the backend's response when the
  select request returns, and the empty list when the request raises; it never lets an
  exception out, and its result is a list in every case. On the reference backend the
  result is every row of the \<^verbatim>\<open>influencers\<close> table.
\<close>

theorem get_all_influencers_rows_or_empty:
  "(table_execute sb (SelectAll ''influencers'') s = (Inr rows, s') \<longrightarrow>
      get_all_influencers sb s = (Inr rows, s'))
   \<and> (table_execute sb (SelectAll ''influencers'') s = (Inl e, s') \<longrightarrow>
      get_all_influencers sb s = (Inr [], s'))
   \<and> \<not> propagates (get_all_influencers sb s)
   \<and> get_all_influencers mem d = (Inr (influencers d), d)"
  by (auto simp add: get_all_influencers_def io_defs propagates_def mem_def mem_select_all_def
      table_rows_def split: prod.splits sum.splits)

theorem get_all_influencers_rows_or_empty_witness:
  "table_execute mem (SelectAll ''influencers'') db_alice = (Inr [alice_stored], db_alice)
   \<and> get_all_influencers mem db_alice = (Inr [alice_stored], db_alice)
   \<and> table_execute unreachable (SelectAll ''influencers'') () =
       (Inl (APIError ''connection refused''), ())
   \<and> get_all_influencers unreachable () = (Inr [], ())"
  using get_all_influencers_rows_or_empty
    [of mem db_alice "[alice_stored]" db_alice "APIError ''connection refused''" db_alice]
    get_all_influencers_rows_or_empty
    [of unreachable "()" "[]" "()" "APIError ''connection refused''" db_alice]
  by (simp add: mem_def mem_select_all_def table_rows_def db_alice_def empty_db_def
      unreachable_def io_raise_def)


text \<open>
  C1, as stated, fails on the code in its second half. On a backend whose update requests
  raise, the update inside \<^verbatim>\<open>store_original_asset\<close> and \<^verbatim>\<open>add_affiliate_link\<close> raises,
  \<^verbatim>\<open>update_influencer\<close> takes the exception and returns \<^verbatim>\<open>False\<close>, and the outer method
  returns the path and the inserted row, not its sentinel \<^verbatim>\<open>None\<close>.
\<close>

theorem sentinel_not_returned_when_nested_update_raises:
  "isl (fst (table_execute (mem_failing is_update)
       (UpdateEq ''influencers''
          [''original_asset_path'' \<mapsto> PStr ''original_avatars/i1/avatar.png'',
           ''updated_at'' \<mapsto> PStr ''now()''] ''id'' (PStr ''i1''))
       (snd (storage_upload (mem_failing is_update) ''influencer-assets''
          ''original_avatars/i1/avatar.png'' abc db_alice))))
   \<and> requests (store_original_asset (traced (mem_failing is_update)) ''i1'' abc ''avatar.png'')
        db_alice =
       [UploadRequest ''influencer-assets'' ''original_avatars/i1/avatar.png'' abc,
        TableRequest (UpdateEq ''influencers''
          [''original_asset_path'' \<mapsto> PStr ''original_avatars/i1/avatar.png'',
           ''updated_at'' \<mapsto> PStr ''now()''] ''id'' (PStr ''i1''))]
   \<and> fst (store_original_asset (mem_failing is_update) ''i1'' abc ''avatar.png'' db_alice) =
       Inr (Some ''original_avatars/i1/avatar.png'')
   \<and> requests (add_affiliate_link (traced (mem_failing is_update)) ''i1'' ''shop'' ''A'' ''u1'')
        db_alice =
       [TableRequest (Insert ''affiliate_links'' (affiliate_data ''i1'' ''shop'' ''A'' ''u1'')),
        TableRequest (SelectEq ''influencers'' ''id'' (PStr ''i1'')),
        TableRequest (UpdateEq ''influencers''
          [''affiliate_id'' \<mapsto> PStr ''A'', ''updated_at'' \<mapsto> PStr ''now()''] ''id'' (PStr ''i1''))]
   \<and> fst (add_affiliate_link (mem_failing is_update) ''i1'' ''shop'' ''A'' ''u1'' db_alice) =
       Inr (Some (affiliate_data ''i1'' ''shop'' ''A'' ''u1''))"
  by (simp add: method_defs example_defs mem_defs mem_failing_def io_defs)

text \<open>
  C1, amended. Whatever the backend does with a request (return, raise, change its
  state), none of the thirteen public methods lets an exception out: each returns a value.
  A method returns its sentinel (\<^verbatim>\<open>None\<close> for the methods that return one row, one path,
  one id or the asset's bytes, the empty list for the two that return rows, \<^verbatim>\<open>False\<close>
  for update and delete) when a request that the method sends itself raises, and so do
  \<^verbatim>\<open>get_original_asset\<close>, \<^verbatim>\<open>get_primary_affiliate_id\<close> and \<^verbatim>\<open>add_affiliate_link\<close> when
  their lookup of the influencer raises. An exception of the update request that
  \<^verbatim>\<open>store_original_asset\<close> and \<^verbatim>\<open>add_affiliate_link\<close> make through
  \<^verbatim>\<open>update_influencer\<close> does not reach them: \<^verbatim>\<open>store_original_asset\<close> returns the path
  whenever the upload returned, and \<^verbatim>\<open>add_affiliate_link\<close> returns the first row of the
  insert's response whenever the insert returned and the lookup found a record.
\<close>

theorem no_exception_propagates:
  "\<not> propagates (create_influencer sb influencer_data s)
   \<and> \<not> propagates (get_influencer_by_username sb username s)
   \<and> \<not> propagates (get_influencer_by_email sb email s)
   \<and> \<not> propagates (get_influencer sb influencer_id s)
   \<and> \<not> propagates (update_influencer sb influencer_id updates s)
   \<and> \<not> propagates (delete_influencer sb influencer_id s)
   \<and> \<not> propagates (get_all_influencers sb s)
   \<and> \<not> propagates (store_original_asset sb influencer_id file_bytes file_name s)
   \<and> \<not> propagates (get_original_asset sb influencer_id s)
   \<and> \<not> propagates (add_affiliate_link sb influencer_id platform affiliate_id uid s)
   \<and> \<not> propagates (get_affiliate_links sb influencer_id s)
   \<and> \<not> propagates (get_primary_affiliate_id sb influencer_id s)
   \<and> \<not> propagates (log_chat_interaction sb influencer_id user_message bot_response
          product_recommendations uid s)
   \<and> (isl (fst (table_execute sb (Insert ''influencers''
          (influencer_data(''chat_page_url'' \<mapsto>
             PStr (''/chat/'' @ py_format (dict_get influencer_data ''username''))))) s)) \<longrightarrow>
        fst (create_influencer sb influencer_data s) = Inr None)
   \<and> (isl (fst (table_execute sb (SelectEq ''influencers'' ''username'' (PStr username)) s)) \<longrightarrow>
        fst (get_influencer_by_username sb username s) = Inr None)
   \<and> (isl (fst (table_execute sb (SelectEq ''influencers'' ''email'' (PStr email)) s)) \<longrightarrow>
        fst (get_influencer_by_email sb email s) = Inr None)
   \<and> (isl (fst (table_execute sb (SelectEq ''influencers'' ''id'' (PStr influencer_id)) s)) \<longrightarrow>
        fst (get_influencer sb influencer_id s) = Inr None
        \<and> fst (get_original_asset sb influencer_id s) = Inr None
        \<and> fst (get_primary_affiliate_id sb influencer_id s) = Inr PNone)
   \<and> (isl (fst (table_execute sb (UpdateEq ''influencers''
          (updates(''updated_at'' \<mapsto> PStr ''now()'')) ''id'' (PStr influencer_id)) s)) \<longrightarrow>
        fst (update_influencer sb influencer_id updates s) = Inr False)
   \<and> (isl (fst (table_execute sb (DeleteEq ''influencers'' ''id'' (PStr influencer_id)) s)) \<longrightarrow>
        fst (delete_influencer sb influencer_id s) = Inr False)
   \<and> (isl (fst (table_execute sb (SelectAll ''influencers'') s)) \<longrightarrow>
        fst (get_all_influencers sb s) = Inr [])
   \<and> (isl (fst (storage_upload sb bucket_name (asset_path influencer_id file_name)
          file_bytes s)) \<longrightarrow>
        fst (store_original_asset sb influencer_id file_bytes file_name s) = Inr None)
   \<and> (\<not> isl (fst (storage_upload sb bucket_name (asset_path influencer_id file_name)
          file_bytes s)) \<longrightarrow>
        fst (store_original_asset sb influencer_id file_bytes file_name s) =
          Inr (Some (asset_path influencer_id file_name)))
   \<and> (get_influencer sb influencer_id s = (Inr (Some r), s1) \<and>
        r ''original_asset_path'' = Some (PStr p) \<and> p \<noteq> [] \<and>
        isl (fst (storage_download sb bucket_name p s1)) \<longrightarrow>
        fst (get_original_asset sb influencer_id s) = Inr None)
   \<and> (isl (fst (table_execute sb (Insert ''affiliate_links''
          (affiliate_data influencer_id platform affiliate_id uid)) s)) \<longrightarrow>
        fst (add_affiliate_link sb influencer_id platform affiliate_id uid s) = Inr None)
   \<and> (table_execute sb (Insert ''affiliate_links''
          (affiliate_data influencer_id platform affiliate_id uid)) s = (Inr data, s2) \<and>
        isl (fst (table_execute sb (SelectEq ''influencers'' ''id'' (PStr influencer_id)) s2)) \<longrightarrow>
        fst (add_affiliate_link sb influencer_id platform affiliate_id uid s) = Inr None)
   \<and> (table_execute sb (Insert ''affiliate_links''
          (affiliate_data influencer_id platform affiliate_id uid)) s = (Inr data, s2) \<and>
        get_influencer sb influencer_id s2 = (Inr (Some found), s3) \<longrightarrow>
        fst (add_affiliate_link sb influencer_id platform affiliate_id uid s) =
          Inr (first_or_none data))
   \<and> (isl (fst (table_execute sb
          (SelectEq ''affiliate_links'' ''influencer_id'' (PStr influencer_id)) s)) \<longrightarrow>
        fst (get_affiliate_links sb influencer_id s) = Inr [])
   \<and> (isl (fst (table_execute sb (Insert ''chat_interactions''
          (interaction_data influencer_id user_message bot_response product_recommendations
             uid)) s)) \<longrightarrow>
        fst (log_chat_interaction sb influencer_id user_message bot_response
          product_recommendations uid s) = Inr None)"
  using download_raises [of sb influencer_id s r s1 p]
    add_after_lookup [of sb influencer_id platform affiliate_id uid s data s2 found s3]
    add_lookup_raises [of sb influencer_id platform affiliate_id uid s data s2]
  by (simp add: create_influencer_returns update_influencer_returns guarded_methods_return
      sentinel_on_raise sentinel_on_first_raise store_after_upload)

theorem no_exception_propagates_witness:
  "isl (fst (table_execute unreachable (SelectAll ''influencers'') ()))
   \<and> isl (fst (storage_upload unreachable bucket_name (asset_path ''i1'' ''avatar.png'') abc ()))
   \<and> fst (create_influencer unreachable alice ()) = Inr None
   \<and> fst (get_influencer_by_username unreachable ''alice'' ()) = Inr None
   \<and> fst (get_influencer_by_email unreachable ''a@x.io'' ()) = Inr None
   \<and> fst (get_influencer unreachable ''i1'' ()) = Inr None
   \<and> fst (update_influencer unreachable ''i1'' [''voice_id'' \<mapsto> PStr ''v2''] ()) = Inr False
   \<and> fst (delete_influencer unreachable ''i1'' ()) = Inr False
   \<and> fst (get_all_influencers unreachable ()) = Inr []
   \<and> fst (store_original_asset unreachable ''i1'' abc ''avatar.png'' ()) = Inr None
   \<and> fst (get_original_asset unreachable ''i1'' ()) = Inr None
   \<and> fst (add_affiliate_link unreachable ''i1'' ''shop'' ''A'' ''u1'' ()) = Inr None
   \<and> fst (get_affiliate_links unreachable ''i1'' ()) = Inr []
   \<and> fst (get_primary_affiliate_id unreachable ''i1'' ()) = Inr PNone
   \<and> fst (log_chat_interaction unreachable ''i1'' ''hi'' ''hello'' False ''u1'' ()) = Inr None
   \<and> get_influencer mem_no_download ''i1'' db_avatar = (Inr (Some alice_avatar), db_avatar)
   \<and> alice_avatar ''original_asset_path'' = Some (PStr ''original_avatars/i1/avatar.png'')
   \<and> isl (fst (storage_download mem_no_download bucket_name ''original_avatars/i1/avatar.png''
        db_avatar))
   \<and> fst (get_original_asset mem_no_download ''i1'' db_avatar) = Inr None
   \<and> fst (get_original_asset mem ''i1'' db_avatar) = Inr (Some abc)
   \<and> \<not> isl (fst (storage_upload (mem_failing is_update) bucket_name
        (asset_path ''i1'' ''avatar.png'') abc db_alice))
   \<and> fst (store_original_asset (mem_failing is_update) ''i1'' abc ''avatar.png'' db_alice) =
       Inr (Some (asset_path ''i1'' ''avatar.png''))
   \<and> table_execute (mem_failing is_update)
        (Insert ''affiliate_links'' (affiliate_data ''i1'' ''shop'' ''A'' ''u1'')) db_alice =
       (Inr [affiliate_data ''i1'' ''shop'' ''A'' ''u1''],
        db_alice\<lparr>affiliate_links := [affiliate_data ''i1'' ''shop'' ''A'' ''u1'']\<rparr>)
   \<and> get_influencer (mem_failing is_update) ''i1''
        (db_alice\<lparr>affiliate_links := [affiliate_data ''i1'' ''shop'' ''A'' ''u1'']\<rparr>) =
       (Inr (Some alice_stored),
        db_alice\<lparr>affiliate_links := [affiliate_data ''i1'' ''shop'' ''A'' ''u1'']\<rparr>)
   \<and> fst (add_affiliate_link (mem_failing is_update) ''i1'' ''shop'' ''A'' ''u1'' db_alice) =
       Inr (Some (affiliate_data ''i1'' ''shop'' ''A'' ''u1''))
   \<and> isl (fst (table_execute (mem_failing is_select)
        (SelectEq ''influencers'' ''id'' (PStr ''i1''))
        (db_alice\<lparr>affiliate_links := [affiliate_data ''i1'' ''shop'' ''A'' ''u1'']\<rparr>)))
   \<and> fst (add_affiliate_link (mem_failing is_select) ''i1'' ''shop'' ''A'' ''u1'' db_alice) =
       Inr None"
  using no_exception_propagates [where sb = unreachable and influencer_data = alice
      and s = "()" and username = "''alice''" and email = "''a@x.io''"
      and influencer_id = "''i1''" and updates = "[''voice_id'' \<mapsto> PStr ''v2'']"
      and file_bytes = abc and file_name = "''avatar.png''" and platform = "''shop''"
      and affiliate_id = "''A''" and uid = "''u1''" and user_message = "''hi''"
      and bot_response = "''hello''" and product_recommendations = False
      and r = alice and ?s1.0 = "()" and p = "''p''" and data = "[]" and ?s2.0 = "()"
      and found = alice and ?s3.0 = "()"]
    no_exception_propagates [where sb = mem_no_download and influencer_data = Map.empty
      and s = db_avatar and username = "''alice''" and email = "''a@x.io''"
      and influencer_id = "''i1''" and updates = "Map.empty"
      and file_bytes = abc and file_name = "''avatar.png''" and platform = "''shop''"
      and affiliate_id = "''A''" and uid = "''u1''" and user_message = "''hi''"
      and bot_response = "''hello''" and product_recommendations = False
      and r = alice_avatar and ?s1.0 = db_avatar and p = "''original_avatars/i1/avatar.png''"
      and data = "[]" and ?s2.0 = db_avatar and found = alice and ?s3.0 = db_avatar]
    no_exception_propagates [where sb = "mem_failing is_update" and influencer_data = Map.empty
      and s = db_alice and username = "''alice''" and email = "''a@x.io''"
      and influencer_id = "''i1''" and updates = "Map.empty"
      and file_bytes = abc and file_name = "''avatar.png''" and platform = "''shop''"
      and affiliate_id = "''A''" and uid = "''u1''" and user_message = "''hi''"
      and bot_response = "''hello''" and product_recommendations = False
      and r = alice and ?s1.0 = db_alice and p = "''p''"
      and data = "[affiliate_data ''i1'' ''shop'' ''A'' ''u1'']"
      and ?s2.0 = "db_alice\<lparr>affiliate_links := [affiliate_data ''i1'' ''shop'' ''A'' ''u1'']\<rparr>"
      and found = alice_stored
      and ?s3.0 = "db_alice\<lparr>affiliate_links := [affiliate_data ''i1'' ''shop'' ''A'' ''u1'']\<rparr>"]
    no_exception_propagates [where sb = "mem_failing is_select" and influencer_data = Map.empty
      and s = db_alice and username = "''alice''" and email = "''a@x.io''"
      and influencer_id = "''i1''" and updates = "Map.empty"
      and file_bytes = abc and file_name = "''avatar.png''" and platform = "''shop''"
      and affiliate_id = "''A''" and uid = "''u1''" and user_message = "''hi''"
      and bot_response = "''hello''" and product_recommendations = False
      and r = alice and ?s1.0 = db_alice and p = "''p''"
      and data = "[affiliate_data ''i1'' ''shop'' ''A'' ''u1'']"
      and ?s2.0 = "db_alice\<lparr>affiliate_links := [affiliate_data ''i1'' ''shop'' ''A'' ''u1'']\<rparr>"
      and found = alice and ?s3.0 = db_alice]
  by (simp add: method_defs example_defs mem_defs mem_no_download_def mem_failing_def
      unreachable_def io_defs)

text \<open>
  C7. \<^verbatim>\<open>create_influencer\<close> returns \<^verbatim>\<open>None\<close>, sends no request and leaves the caller's
  dictionary and the backend as they were whenever one of the four required fields
  (\<^verbatim>\<open>id\<close>, \<^verbatim>\<open>username\<close>, \<^verbatim>\<open>email\<close>, \<^verbatim>\<open>password_hash\<close>) is not a key of the input map.
  When all four are keys, it sends exactly one request, the insert of the input map with
  its \<^verbatim>\<open>chat_page_url\<close>, and leaves the backend in the state that insert left: if the
  insert returns, the result is the first row of its response (\<^verbatim>\<open>None\<close> when the response
  has no row); if the insert raises, the result is \<^verbatim>\<open>None\<close>. On the reference backend a
  returned row is the row the call has appended to the \<^verbatim>\<open>influencers\<close> table. The method
  never raises.
\<close>

theorem create_influencer_required_fields:
  "(field \<in> set required_fields \<and> influencer_data field = None \<longrightarrow>
      create_influencer sb influencer_data s = (Inr None, influencer_data, s)
      \<and> requests (drop_dict (create_influencer (traced sb) influencer_data)) s = [])
   \<and> (set required_fields \<subseteq> dom influencer_data \<longrightarrow>
        requests (drop_dict (create_influencer (traced sb) influencer_data)) s =
          [TableRequest (Insert ''influencers''
             (influencer_data(''chat_page_url'' \<mapsto>
                PStr (''/chat/'' @ py_format (dict_get influencer_data ''username'')))))]
      \<and> (table_execute sb (Insert ''influencers''
             (influencer_data(''chat_page_url'' \<mapsto>
                PStr (''/chat/'' @ py_format (dict_get influencer_data ''username''))))) s =
             (Inr data, s')
           \<longrightarrow> create_influencer sb influencer_data s =
                 (Inr (first_or_none data),
                  influencer_data(''chat_page_url'' \<mapsto>
                    PStr (''/chat/'' @ py_format (dict_get influencer_data ''username''))), s'))
      \<and> (table_execute sb (Insert ''influencers''
             (influencer_data(''chat_page_url'' \<mapsto>
                PStr (''/chat/'' @ py_format (dict_get influencer_data ''username''))))) s =
             (Inl e, s')
           \<longrightarrow> create_influencer sb influencer_data s =
                 (Inr None,
                  influencer_data(''chat_page_url'' \<mapsto>
                    PStr (''/chat/'' @ py_format (dict_get influencer_data ''username''))), s')))
   \<and> (fst (create_influencer mem influencer_data d) = Inr (Some r) \<longrightarrow>
        r = column_defaults ''influencers'' ++
              influencer_data(''chat_page_url'' \<mapsto>
                PStr (''/chat/'' @ py_format (dict_get influencer_data ''username'')))
        \<and> snd (snd (create_influencer mem influencer_data d)) =
            d\<lparr>influencers := influencers d @ [r]\<rparr>)
   \<and> \<not> propagates (create_influencer sb influencer_data s)"
proof (intro conjI impI)
  assume "field \<in> set required_fields \<and> influencer_data field = None"
  then show "create_influencer sb influencer_data s = (Inr None, influencer_data, s)"
    and "requests (drop_dict (create_influencer (traced sb) influencer_data)) s = []"
    by (auto simp add: create_influencer_def required_fields_def requests_def drop_dict_def)
next
  assume req: "set required_fields \<subseteq> dom influencer_data"
  then show "requests (drop_dict (create_influencer (traced sb) influencer_data)) s =
      [TableRequest (Insert ''influencers''
         (influencer_data(''chat_page_url'' \<mapsto>
            PStr (''/chat/'' @ py_format (dict_get influencer_data ''username'')))))]"
    by (rule create_influencer_request)
  {
    assume "table_execute sb (Insert ''influencers''
             (influencer_data(''chat_page_url'' \<mapsto>
                PStr (''/chat/'' @ py_format (dict_get influencer_data ''username''))))) s =
             (Inr data, s')"
    then show "create_influencer sb influencer_data s =
        (Inr (first_or_none data),
         influencer_data(''chat_page_url'' \<mapsto>
           PStr (''/chat/'' @ py_format (dict_get influencer_data ''username''))), s')"
      by (simp add: create_influencer_runs [OF req])
  }
  {
    assume "table_execute sb (Insert ''influencers''
             (influencer_data(''chat_page_url'' \<mapsto>
                PStr (''/chat/'' @ py_format (dict_get influencer_data ''username''))))) s =
             (Inl e, s')"
    then show "create_influencer sb influencer_data s =
        (Inr None,
         influencer_data(''chat_page_url'' \<mapsto>
           PStr (''/chat/'' @ py_format (dict_get influencer_data ''username''))), s')"
      by (simp add: create_influencer_runs [OF req])
  }
next
  assume created: "fst (create_influencer mem influencer_data d) = Inr (Some r)"
  then show "r = column_defaults ''influencers'' ++
      influencer_data(''chat_page_url'' \<mapsto>
        PStr (''/chat/'' @ py_format (dict_get influencer_data ''username'')))"
    and "snd (snd (create_influencer mem influencer_data d)) =
      d\<lparr>influencers := influencers d @ [r]\<rparr>"
    by (rule create_influencer_mem_inserted)+
next
  show "\<not> propagates (create_influencer sb influencer_data s)"
    by (rule create_influencer_returns)
qed

theorem create_influencer_required_fields_witness:
  "''email'' \<in> set required_fields \<and> (alice(''email'' := None)) ''email'' = None
   \<and> create_influencer mem (alice(''email'' := None)) empty_db =
        (Inr None, alice(''email'' := None), empty_db)
   \<and> requests (drop_dict (create_influencer (traced mem) (alice(''email'' := None)))) empty_db = []
   \<and> set required_fields \<subseteq> dom alice
   \<and> requests (drop_dict (create_influencer (traced mem) alice)) empty_db =
        [TableRequest (Insert ''influencers'' (alice(''chat_page_url'' \<mapsto> PStr ''/chat/alice'')))]
   \<and> table_execute mem (Insert ''influencers'' (alice(''chat_page_url'' \<mapsto> PStr ''/chat/alice'')))
        empty_db = (Inr [alice_stored], db_alice)
   \<and> create_influencer mem alice empty_db =
        (Inr (Some alice_stored), alice(''chat_page_url'' \<mapsto> PStr ''/chat/alice''), db_alice)
   \<and> db_alice = empty_db\<lparr>influencers := influencers empty_db @ [alice_stored]\<rparr>
   \<and> table_execute unreachable
        (Insert ''influencers'' (alice(''chat_page_url'' \<mapsto> PStr ''/chat/alice''))) () =
        (Inl (APIError ''connection refused''), ())
   \<and> create_influencer unreachable alice () =
        (Inr None, alice(''chat_page_url'' \<mapsto> PStr ''/chat/alice''), ())"
  using create_influencer_required_fields
      [where field = "''email''" and influencer_data = "alice(''email'' := None)"
        and sb = mem and s = empty_db and data = "[]" and s' = empty_db
        and e = "APIError ''x''" and d = empty_db and r = alice_stored]
    create_influencer_required_fields
      [where field = "''email''" and influencer_data = alice and sb = mem and s = empty_db
        and data = "[alice_stored]" and s' = db_alice and e = "APIError ''x''"
        and d = empty_db and r = alice_stored]
    create_influencer_required_fields
      [where field = "''email''" and influencer_data = alice and sb = unreachable and s = "()"
        and data = "[]" and e = "APIError ''connection refused''" and s' = "()"
        and d = empty_db and r = alice_stored]
  by (simp add: method_defs example_defs mem_defs unreachable_def io_defs)

text \<open>
  C8. When the layer's lookup of the influencer finds no record (\<^verbatim>\<open>get_influencer\<close>
  returns \<^verbatim>\<open>None\<close>) or a record whose \<^verbatim>\<open>original_asset_path\<close> is missing, null or empty,
  \<^verbatim>\<open>get_original_asset\<close> returns \<^verbatim>\<open>None\<close> and the only request it has sent is the
  lookup: no download request reaches the blob store.
\<close>

theorem get_original_asset_without_path:
  assumes "fst (get_influencer sb influencer_id s) = Inr found"
    and "case found of None \<Rightarrow> True
         | Some r \<Rightarrow> \<not> truthy (dict_get r ''original_asset_path'')"
  shows "fst (get_original_asset sb influencer_id s) = Inr None
       \<and> requests (get_original_asset (traced sb) influencer_id) s =
           [TableRequest (SelectEq ''influencers'' ''id'' (PStr influencer_id))]"
  using assms
  by (auto simp add: get_original_asset_def get_influencer_def io_defs requests_def traced_def
      split: prod.splits sum.splits option.splits if_splits)

theorem get_original_asset_without_path_witness:
  "fst (get_influencer mem ''i1'' db_alice) = Inr (Some alice_stored)
   \<and> \<not> truthy (dict_get alice_stored ''original_asset_path'')
   \<and> fst (get_original_asset mem ''i1'' db_alice) = Inr None
   \<and> requests (get_original_asset (traced mem) ''i1'') db_alice =
        [TableRequest (SelectEq ''influencers'' ''id'' (PStr ''i1''))]
   \<and> fst (get_influencer mem ''ghost'' db_alice) = Inr None
   \<and> fst (get_original_asset mem ''ghost'' db_alice) = Inr None
   \<and> requests (get_original_asset (traced mem) ''ghost'') db_alice =
        [TableRequest (SelectEq ''influencers'' ''id'' (PStr ''ghost''))]"
  using get_original_asset_without_path [of mem "''i1''" db_alice "Some alice_stored"]
    get_original_asset_without_path [of mem "''ghost''" db_alice None]
  by (simp add: method_defs example_defs mem_defs io_defs)


text \<open>
  C2, as stated, fails on the code. The layer writes the default when
  \<^verbatim>\<open>not influencer.get('affiliate_id')\<close> holds, and the empty string is falsy: after a
  first link with affiliate id \<^verbatim>\<open>''\<close> the default is \<^verbatim>\<open>''\<close>, and the next link
  with affiliate id \<^verbatim>\<open>'B'\<close> replaces it.
\<close>

theorem default_affiliate_empty_first_write_loses:
  "fst (get_influencer mem ''i1'' db_alice) = Inr (Some alice_stored)
   \<and> \<not> truthy (dict_get alice_stored ''affiliate_id'')
   \<and> fst (add_affiliate_link mem ''i1'' ''shop'' '''' ''u1'' db_alice) \<noteq> Inr None
   \<and> fst (get_primary_affiliate_id mem ''i1''
        (snd (add_affiliate_link mem ''i1'' ''shop'' '''' ''u1'' db_alice))) = Inr (PStr '''')
   \<and> fst (add_affiliate_link mem ''i1'' ''shop'' ''B'' ''u2''
        (snd (add_affiliate_link mem ''i1'' ''shop'' '''' ''u1'' db_alice))) \<noteq> Inr None
   \<and> fst (get_primary_affiliate_id mem ''i1''
        (snd (add_affiliate_link mem ''i1'' ''shop'' ''B'' ''u2''
           (snd (add_affiliate_link mem ''i1'' ''shop'' '''' ''u1'' db_alice))))) =
       Inr (PStr ''B'')"
  by (simp add: method_defs example_defs mem_defs io_defs)

text \<open>
  C2, amended. On the reference backend, for every stored influencer whose
  \<^verbatim>\<open>affiliate_id\<close> is unset (missing, null or empty) and every non-empty affiliate id
  \<open>a\<close>: if \<^verbatim>\<open>add_affiliate_link\<close> with \<open>a\<close> does not return \<^verbatim>\<open>None\<close>, then after a
  following \<^verbatim>\<open>add_affiliate_link\<close> with \<open>b\<close>, and after any sequence of later
  \<^verbatim>\<open>add_affiliate_link\<close> calls for any influencers, the influencer's default affiliate id
  is \<open>a\<close>. And once an influencer's default is truthy (a non-empty string), no sequence
  of \<^verbatim>\<open>add_affiliate_link\<close> calls changes it.
\<close>

theorem default_affiliate_first_write_wins:
  "(fst (get_influencer mem i d) = Inr (Some r) \<and> \<not> truthy (dict_get r ''affiliate_id'') \<and>
    a \<noteq> [] \<and> fst (add_affiliate_link mem i p a u d) \<noteq> Inr None \<longrightarrow>
      fst (get_primary_affiliate_id mem i
        (snd (add_affiliate_link mem i q b w (snd (add_affiliate_link mem i p a u d))))) =
        Inr (PStr a)
      \<and> fst (get_primary_affiliate_id mem i
          (add_affiliate_links calls (snd (add_affiliate_link mem i p a u d)))) = Inr (PStr a))
   \<and> (fst (get_primary_affiliate_id mem i d0) = Inr v \<and> truthy v \<longrightarrow>
      fst (get_primary_affiliate_id mem i (add_affiliate_links calls d0)) = Inr v)"
proof (intro conjI impI)
  assume h: "fst (get_influencer mem i d) = Inr (Some r) \<and>
    \<not> truthy (dict_get r ''affiliate_id'') \<and>
    a \<noteq> [] \<and> fst (add_affiliate_link mem i p a u d) \<noteq> Inr None"
  let ?d1 = "snd (add_affiliate_link mem i p a u d)"
  from h have set: "primary_of i (influencers ?d1) = PStr a"
    by (simp add: add_affiliate_link_sets_default)
  with h have default: "truthy (primary_of i (influencers ?d1))"
    by simp
  have "primary_of i (influencers (add_affiliate_links cs ?d1)) =
      primary_of i (influencers ?d1)" for cs
    using default by (rule later_links_keep_default)
  from this [of calls] this [of "[(i, q, b, w)]"] set
  show "fst (get_primary_affiliate_id mem i (add_affiliate_links calls ?d1)) = Inr (PStr a)"
    and "fst (get_primary_affiliate_id mem i (snd (add_affiliate_link mem i q b w ?d1))) =
      Inr (PStr a)"
    by (simp_all add: get_primary_affiliate_id_mem)
next
  assume h: "fst (get_primary_affiliate_id mem i d0) = Inr v \<and> truthy v"
  then have "truthy (primary_of i (influencers d0))"
    by (simp add: get_primary_affiliate_id_mem)
  then have "primary_of i (influencers (add_affiliate_links calls d0)) =
      primary_of i (influencers d0)"
    by (rule later_links_keep_default)
  with h show "fst (get_primary_affiliate_id mem i (add_affiliate_links calls d0)) = Inr v"
    by (simp add: get_primary_affiliate_id_mem)
qed

theorem default_affiliate_first_write_wins_witness:
  "fst (get_influencer mem ''i1'' db_alice) = Inr (Some alice_stored)
   \<and> \<not> truthy (dict_get alice_stored ''affiliate_id'')
   \<and> ''A'' \<noteq> []
   \<and> fst (add_affiliate_link mem ''i1'' ''shop'' ''A'' ''u1'' db_alice) \<noteq> Inr None
   \<and> fst (get_primary_affiliate_id mem ''i1''
        (snd (add_affiliate_link mem ''i1'' ''shop'' ''B'' ''u2''
           (snd (add_affiliate_link mem ''i1'' ''shop'' ''A'' ''u1'' db_alice))))) =
       Inr (PStr ''A'')
   \<and> fst (get_primary_affiliate_id mem ''i1'' db_alice_A) = Inr (PStr ''A'')
   \<and> truthy (PStr ''A'')
   \<and> fst (get_primary_affiliate_id mem ''i1''
        (add_affiliate_links [(''i1'', ''shop'', ''B'', ''u2''), (''i1'', ''web'', ''C'', ''u3'')]
           db_alice_A)) = Inr (PStr ''A'')"
  using default_affiliate_first_write_wins
    [of "''i1''" db_alice alice_stored "''A''" "''shop''" "''u1''" "''shop''" "''B''" "''u2''"
      "[(''i1'', ''shop'', ''B'', ''u2''), (''i1'', ''web'', ''C'', ''u3'')]" db_alice_A "PStr ''A''"]
  by (simp add: method_defs example_defs mem_defs io_defs)




text \<open>
  C4. \<^verbatim>\<open>create_influencer\<close> called with username \<open>u\<close> puts \<^verbatim>\<open>chat_page_url\<close> =
  \<^verbatim>\<open>"/chat/"\<close> followed by \<open>u\<close> into the dictionary it inserts (on every backend, in
  the one request it sends). On the reference backend the record it created is stored
  with that \<^verbatim>\<open>chat_page_url\<close>, and a later \<^verbatim>\<open>update_influencer\<close> whose map mentions
  neither \<^verbatim>\<open>chat_page_url\<close> nor \<^verbatim>\<open>id\<close> leaves the stored \<^verbatim>\<open>chat_page_url\<close> as it was, also
  when it changes the username. On every backend the one request of
  \<^verbatim>\<open>update_influencer\<close> carries the caller's map and \<^verbatim>\<open>updated_at\<close>, nothing else: a
  \<^verbatim>\<open>chat_page_url\<close> is in it only when the caller put one there.
\<close>

theorem chat_page_url_fixed_at_creation:
  "(set required_fields \<subseteq> dom influencer_data \<and> influencer_data ''username'' = Some (PStr u) \<longrightarrow>
      requests (drop_dict (create_influencer (traced sb) influencer_data)) s =
        [TableRequest (Insert ''influencers''
           (influencer_data(''chat_page_url'' \<mapsto> PStr (''/chat/'' @ u))))]
      \<and> fst (snd (create_influencer sb influencer_data s)) =
          influencer_data(''chat_page_url'' \<mapsto> PStr (''/chat/'' @ u)))
   \<and> (influencer_data ''id'' = Some (PStr i) \<and> influencer_data ''username'' = Some (PStr u) \<and>
      fst (create_influencer mem influencer_data d) = Inr (Some r) \<longrightarrow>
        r ''chat_page_url'' = Some (PStr (''/chat/'' @ u))
        \<and> fst (get_influencer mem i (snd (snd (create_influencer mem influencer_data d)))) =
            Inr (Some r))
   \<and> (fst (get_influencer mem i d0) = Inr (Some r0) \<and>
      updates ''chat_page_url'' = None \<and> updates ''id'' = None \<longrightarrow>
        (\<exists>r1. fst (get_influencer mem i (snd (snd (update_influencer mem i updates d0)))) =
                Inr (Some r1)
             \<and> r1 ''chat_page_url'' = r0 ''chat_page_url''
             \<and> (fst (update_influencer mem i updates d0) = Inr True \<and>
                updates ''username'' = Some (PStr u') \<longrightarrow>
                  r1 ''username'' = Some (PStr u'))))
   \<and> (dom updates \<noteq> {} \<longrightarrow>
        requests (drop_dict (update_influencer (traced sb) i updates)) s =
          [TableRequest
             (UpdateEq ''influencers'' (updates(''updated_at'' \<mapsto> PStr ''now()'')) ''id''
                (PStr i))]
        \<and> (updates(''updated_at'' \<mapsto> PStr ''now()'')) ''chat_page_url'' =
            updates ''chat_page_url'')"
proof (intro conjI impI)
  assume h: "set required_fields \<subseteq> dom influencer_data \<and>
    influencer_data ''username'' = Some (PStr u)"
  then have req: "set required_fields \<subseteq> dom influencer_data"
    and name: "influencer_data ''username'' = Some (PStr u)"
    by simp_all
  show "requests (drop_dict (create_influencer (traced sb) influencer_data)) s =
        [TableRequest (Insert ''influencers''
           (influencer_data(''chat_page_url'' \<mapsto> PStr (''/chat/'' @ u))))]"
    by (simp add: create_influencer_sends [OF req name] requests_def drop_dict_def traced_def
        split: prod.splits sum.splits)
  show "fst (snd (create_influencer sb influencer_data s)) =
          influencer_data(''chat_page_url'' \<mapsto> PStr (''/chat/'' @ u))"
    by (simp add: create_influencer_sends [OF req name] split: prod.splits sum.splits)
next
  assume h: "influencer_data ''id'' = Some (PStr i) \<and>
    influencer_data ''username'' = Some (PStr u) \<and>
    fst (create_influencer mem influencer_data d) = Inr (Some r)"
  then have created: "fst (create_influencer mem influencer_data d) = Inr (Some r)"
    and name: "influencer_data ''username'' = Some (PStr u)"
    and ident: "influencer_data ''id'' = Some (PStr i)"
    by simp_all
  note stored = create_influencer_mem_stored [OF created name]
  from stored(1) show url: "r ''chat_page_url'' = Some (PStr (''/chat/'' @ u))"
    by simp
  from stored(1) ident have rid: "matches ''id'' (PStr i) r"
    by (simp add: matches_def map_add_def)
  from stored(3) ident have "filter (matches ''id'' (PStr i)) (influencers d) = []"
    by (simp add: unreferenced_not_selected)
  with rid stored(2)
  show "fst (get_influencer mem i (snd (snd (create_influencer mem influencer_data d)))) =
      Inr (Some r)"
    by (simp add: get_influencer_mem first_or_none_def)
next
  assume h: "fst (get_influencer mem i d0) = Inr (Some r0) \<and>
      updates ''chat_page_url'' = None \<and> updates ''id'' = None"
  then have r0: "first_or_none (filter (matches ''id'' (PStr i)) (influencers d0)) = Some r0"
    and nourl: "updates ''chat_page_url'' = None" and noid: "updates ''id'' = None"
    by (simp_all add: get_influencer_mem)
  let ?u = "updates(''updated_at'' \<mapsto> PStr ''now()'')"
  let ?run = "update_influencer mem i updates d0"
  consider (same) "fst ?run = Inr False" "snd (snd ?run) = d0"
    | (written) "fst ?run = Inr True"
        "snd (snd ?run) = d0\<lparr>influencers := set_where ''id'' (PStr i) ?u (influencers d0)\<rparr>"
    using update_influencer_mem_cases [of updates i d0]
      update_influencer_mem_empty [of updates i d0]
    by (cases "dom updates = {}") auto
  then show "\<exists>r1. fst (get_influencer mem i (snd (snd ?run))) = Inr (Some r1)
             \<and> r1 ''chat_page_url'' = r0 ''chat_page_url''
             \<and> (fst ?run = Inr True \<and> updates ''username'' = Some (PStr u') \<longrightarrow>
                  r1 ''username'' = Some (PStr u'))"
  proof cases
    case same
    with r0 show ?thesis
      by (simp add: get_influencer_mem)
  next
    case written
    have "first_or_none (filter (matches ''id'' (PStr i))
        (set_where ''id'' (PStr i) ?u (influencers d0))) = Some (r0 ++ ?u)"
      using r0 noid by (simp add: select_set_where_same first_or_none_map)
    with written nourl show ?thesis
      by (simp add: get_influencer_mem map_add_def)
  qed
next
  assume "dom updates \<noteq> {}"
  then show "requests (drop_dict (update_influencer (traced sb) i updates)) s =
      [TableRequest
         (UpdateEq ''influencers'' (updates(''updated_at'' \<mapsto> PStr ''now()'')) ''id''
            (PStr i))]"
    by (rule update_influencer_sends)
next
  show "(updates(''updated_at'' \<mapsto> PStr ''now()'')) ''chat_page_url'' =
      updates ''chat_page_url''"
    by simp
qed

theorem chat_page_url_fixed_at_creation_witness:
  "set required_fields \<subseteq> dom alice
   \<and> alice ''username'' = Some (PStr ''alice'')
   \<and> alice ''id'' = Some (PStr ''i1'')
   \<and> requests (drop_dict (create_influencer (traced mem) alice)) empty_db =
       [TableRequest (Insert ''influencers'' (alice(''chat_page_url'' \<mapsto> PStr ''/chat/alice'')))]
   \<and> fst (create_influencer mem alice empty_db) = Inr (Some alice_stored)
   \<and> alice_stored ''chat_page_url'' = Some (PStr ''/chat/alice'')
   \<and> fst (get_influencer mem ''i1'' (snd (snd (create_influencer mem alice empty_db)))) =
       Inr (Some alice_stored)
   \<and> fst (get_influencer mem ''i1'' db_alice) = Inr (Some alice_stored)
   \<and> fst (update_influencer mem ''i1'' [''username'' \<mapsto> PStr ''alicia''] db_alice) = Inr True
   \<and> fst (get_influencer mem ''i1''
        (snd (snd (update_influencer mem ''i1'' [''username'' \<mapsto> PStr ''alicia''] db_alice)))) =
       Inr (Some (alice_stored(''username'' \<mapsto> PStr ''alicia'', ''updated_at'' \<mapsto> PStr ''now()'')))
   \<and> (alice_stored(''username'' \<mapsto> PStr ''alicia'', ''updated_at'' \<mapsto> PStr ''now()''))
        ''chat_page_url'' = Some (PStr ''/chat/alice'')
   \<and> requests (drop_dict (update_influencer (traced mem) ''i1'' [''username'' \<mapsto> PStr ''alicia'']))
        empty_db =
       [TableRequest
          (UpdateEq ''influencers''
             [''username'' \<mapsto> PStr ''alicia'', ''updated_at'' \<mapsto> PStr ''now()''] ''id''
             (PStr ''i1''))]"
  using chat_page_url_fixed_at_creation
    [of alice "''alice''" mem empty_db "''i1''" empty_db alice_stored db_alice alice_stored
      "[''username'' \<mapsto> PStr ''alicia'']" "''alicia''"]
  by (simp add: method_defs example_defs mem_defs io_defs)

text \<open>
  C6, as stated, fails on the code. \<^verbatim>\<open>store_original_asset\<close> ignores what
  \<^verbatim>\<open>update_influencer\<close> returns, and \<^verbatim>\<open>update_influencer\<close> reports success when no row
  matched: for an id that no influencer row has, the store call returns the path (it
  succeeds) and \<^verbatim>\<open>get_original_asset\<close> then returns \<^verbatim>\<open>None\<close>, not the bytes.
\<close>

theorem asset_round_trip_fails_without_record:
  "fst (store_original_asset mem ''ghost'' abc ''avatar.png'' db_alice) =
     Inr (Some ''original_avatars/ghost/avatar.png'')
   \<and> fst (get_original_asset mem ''ghost''
        (snd (store_original_asset mem ''ghost'' abc ''avatar.png'' db_alice))) = Inr None"
  by (simp add: method_defs example_defs mem_defs io_defs)

text \<open>
  C6, amended. On the reference backend, for every id \<open>i\<close> of a stored influencer
  record, every byte string \<open>b\<close> and every file name \<open>f\<close>:
  \<^verbatim>\<open>store_original_asset(i, b, f)\<close> returns the path
  \<^verbatim>\<open>original_avatars/{i}/{f}\<close> and \<^verbatim>\<open>get_original_asset(i)\<close> then returns exactly \<open>b\<close>; a
  second store of \<open>b'\<close> under the same \<open>i\<close> and \<open>f\<close> leaves one object at that path,
  holding \<open>b'\<close>, and the retrieval returns \<open>b'\<close>. On every backend the path a successful
  store returns is that function of \<open>i\<close> and \<open>f\<close>, and the first request of the call is
  the upload of \<open>b\<close> to that path in the bucket \<^verbatim>\<open>influencer-assets\<close>.
\<close>

theorem asset_round_trip:
  assumes "fst (get_influencer mem i d) = Inr (Some r)"
  shows "fst (store_original_asset mem i b f d) = Inr (Some (''original_avatars/'' @ i @ ''/'' @ f))
     \<and> fst (get_original_asset mem i (snd (store_original_asset mem i b f d))) = Inr (Some b)
     \<and> fst (get_original_asset mem i
          (snd (store_original_asset mem i b' f (snd (store_original_asset mem i b f d))))) =
        Inr (Some b')
     \<and> objects (snd (store_original_asset mem i b' f (snd (store_original_asset mem i b f d)))) =
        (objects d)((''influencer-assets'', ''original_avatars/'' @ i @ ''/'' @ f) \<mapsto> b')
     \<and> (fst (store_original_asset sb i b f s) = Inr (Some path) \<longrightarrow>
          path = ''original_avatars/'' @ i @ ''/'' @ f)
     \<and> (\<exists>rest. requests (store_original_asset (traced sb) i b f) s =
          UploadRequest ''influencer-assets'' (''original_avatars/'' @ i @ ''/'' @ f) b # rest)"
proof -
  from assms have r: "first_or_none (filter (matches ''id'' (PStr i)) (influencers d)) = Some r"
    by (simp add: get_influencer_mem)
  have one: "fst (get_original_asset mem i (snd (store_original_asset mem i b f d))) =
      Inr (Some b)"
    using r by (rule get_after_store)
  have two: "fst (get_original_asset mem i
          (snd (store_original_asset mem i b' f (snd (store_original_asset mem i b f d))))) =
        Inr (Some b')"
    using stored_record_after_store [OF r] by (rule get_after_store)
  have three: "fst (store_original_asset mem i b f d) =
      Inr (Some (''original_avatars/'' @ i @ ''/'' @ f))"
    by (simp add: store_original_asset_mem asset_path_def)
  have four: "objects (snd (store_original_asset mem i b' f
        (snd (store_original_asset mem i b f d)))) =
      (objects d)((''influencer-assets'', ''original_avatars/'' @ i @ ''/'' @ f) \<mapsto> b')"
    by (simp add: store_original_asset_mem asset_path_def bucket_name_def)
  show ?thesis
    using one two three four store_original_asset_path [of sb i b f s path]
      store_original_asset_upload_first [of sb i b f s]
    by blast
qed

theorem asset_round_trip_witness:
  "fst (get_influencer mem ''i1'' db_alice) = Inr (Some alice_stored)
   \<and> fst (store_original_asset mem ''i1'' abc ''avatar.png'' db_alice) =
       Inr (Some ''original_avatars/i1/avatar.png'')
   \<and> fst (get_original_asset mem ''i1''
        (snd (store_original_asset mem ''i1'' abc ''avatar.png'' db_alice))) = Inr (Some abc)
   \<and> fst (get_original_asset mem ''i1''
        (snd (store_original_asset mem ''i1'' [0x78] ''avatar.png''
           (snd (store_original_asset mem ''i1'' abc ''avatar.png'' db_alice))))) =
       Inr (Some [0x78])
   \<and> objects (snd (store_original_asset mem ''i1'' [0x78] ''avatar.png''
        (snd (store_original_asset mem ''i1'' abc ''avatar.png'' db_alice)))) =
       [(''influencer-assets'', ''original_avatars/i1/avatar.png'') \<mapsto> [0x78]]"
  using asset_round_trip
    [of "''i1''" db_alice alice_stored abc "''avatar.png''" "[0x78]" mem db_alice
      "''original_avatars/i1/avatar.png''"]
  by (simp add: method_defs example_defs mem_defs io_defs)

end
